theory Spec2Isabelle
  imports Main
begin

section \<open>Python strings\<close>

text \<open>
  The module \<^verbatim>\<open>main.py\<close> is a Flask application with one upload handler, an image
  listing and a log stream. Strings are modelled as \<^typ>\<open>string\<close> (lists of 8-bit
  characters, read as the code points 0 to 255). Python's \<^verbatim>\<open>str\<close> is Unicode; the
  one step of the program whose result depends on Unicode tables (the NFKD normalisation
  inside \<^verbatim>\<open>secure_filename\<close>) is a parameter of the model.
\<close>

definition ascii_uppercase :: string where
  "ascii_uppercase = ''ABCDEFGHIJKLMNOPQRSTUVWXYZ''"

definition ascii_lowercase :: string where
  "ascii_lowercase = ''abcdefghijklmnopqrstuvwxyz''"

definition ascii_digits :: string where
  "ascii_digits = ''0123456789''"

text \<open>
  \<^verbatim>\<open>str.lower()\<close>: the letters A to Z are mapped to a to z. A character outside
  ASCII is left as it is; Python maps it to a character that is again outside ASCII (or to
  the letter k, for the Kelvin sign), so membership in the all-ASCII, k-free set of
  extensions is not affected.
\<close>

definition lower_char :: "char \<Rightarrow> char" where
  "lower_char c =
     (case map_of (zip ascii_uppercase ascii_lowercase) c of Some d \<Rightarrow> d | None \<Rightarrow> c)"

definition lower :: "string \<Rightarrow> string" where
  "lower s = map lower_char s"

text \<open>
  \<^verbatim>\<open>s.rsplit(sep, 1)\<close> for a one-character separator: the string is cut at the
  last occurrence of the separator, and is returned whole when there is none.
\<close>

definition rsplit1 :: "char \<Rightarrow> string \<Rightarrow> string list" where
  "rsplit1 sep s =
     (if sep \<in> set s
      then [rev (tl (dropWhile (\<lambda>c. c \<noteq> sep) (rev s))), rev (takeWhile (\<lambda>c. c \<noteq> sep) (rev s))]
      else [s])"

section \<open>The extension check\<close>

definition ALLOWED_EXTENSIONS :: "string set" where
  "ALLOWED_EXTENSIONS = {''txt'', ''pdf'', ''png'', ''jpg'', ''jpeg'', ''gif''}"

text \<open>
  \<^verbatim>\<open>
  def allowed_file(filename):
      return '.' in filename and \
             filename.rsplit('.', 1)[1].lower() in ALLOWED_EXTENSIONS
  \<close>
  The index \<^verbatim>\<open>[1]\<close> is evaluated only when the name contains a dot, where the
  split has two parts.
\<close>

definition allowed_file :: "string \<Rightarrow> bool" where
  "allowed_file filename =
     (CHR ''.'' \<in> set filename \<and>
      lower (rsplit1 CHR ''.'' filename ! 1) \<in> ALLOWED_EXTENSIONS)"

section \<open>Library functions called by the upload handler\<close>

text \<open>
  The handler runs on a POSIX system: \<^verbatim>\<open>os.sep\<close> is the slash,
  \<^verbatim>\<open>os.path.altsep\<close> is \<^verbatim>\<open>None\<close> and \<^verbatim>\<open>os.name\<close> is not
  \<^verbatim>\<open>"nt"\<close>.
\<close>

subsection \<open>\<^verbatim>\<open>werkzeug.utils.secure_filename\<close>\<close>

text \<open>
  \<^verbatim>\<open>
  _filename_ascii_strip_re = re.compile(r"[^A-Za-z0-9_.-]")

  def secure_filename(filename):
      filename = unicodedata.normalize("NFKD", filename)
      filename = filename.encode("ascii", "ignore").decode("ascii")
      for sep in os.sep, os.path.altsep:
          if sep:
              filename = filename.replace(sep, " ")
      filename = str(_filename_ascii_strip_re.sub("", "_".join(filename.split()))).strip("._")
      ...                       # a branch for os.name == "nt" only
      return filename
  \<close>
  The normalisation is the parameter \<open>nfkd\<close>; it is the identity on ASCII text.
\<close>

definition encode_ascii_ignore :: "string \<Rightarrow> string" where
  "encode_ascii_ignore s = filter (\<lambda>c. (of_char c :: nat) < 128) s"

definition replace_char :: "char \<Rightarrow> char \<Rightarrow> string \<Rightarrow> string" where
  "replace_char old new s = map (\<lambda>c. if c = old then new else c) s"

text \<open>
  \<^verbatim>\<open>str.split()\<close> with no argument cuts at runs of whitespace and returns no empty
  word. Among the ASCII characters, Python takes the codes 9 to 13, 28 to 31 and 32 for
  whitespace.
\<close>

definition str_whitespace :: string where
  "str_whitespace =
     [CHR 0x09, CHR 0x0A, CHR 0x0B, CHR 0x0C, CHR 0x0D, CHR 0x1C, CHR 0x1D, CHR 0x1E, CHR 0x1F,
      CHR 0x20]"

fun split_words :: "string \<Rightarrow> string \<Rightarrow> string list" where
  "split_words w [] = (if w = [] then [] else [w])"
| "split_words w (c # cs) =
     (if c \<in> set str_whitespace
      then (if w = [] then split_words [] cs else w # split_words [] cs)
      else split_words (w @ [c]) cs)"

definition split_whitespace :: "string \<Rightarrow> string list" where
  "split_whitespace s = split_words [] s"

fun join_with :: "string \<Rightarrow> string list \<Rightarrow> string" where
  "join_with sep [] = []"
| "join_with sep [w] = w"
| "join_with sep (w # v # ws) = w @ sep @ join_with sep (v # ws)"

definition filename_chars :: string where
  "filename_chars = ascii_uppercase @ ascii_lowercase @ ascii_digits @ ''_.-''"

definition filename_ascii_strip :: "string \<Rightarrow> string" where
  "filename_ascii_strip s = filter (\<lambda>c. c \<in> set filename_chars) s"

definition strip_chars :: "string \<Rightarrow> string \<Rightarrow> string" where
  "strip_chars cs s =
     rev (dropWhile (\<lambda>c. c \<in> set cs) (rev (dropWhile (\<lambda>c. c \<in> set cs) s)))"

definition secure_filename :: "(string \<Rightarrow> string) \<Rightarrow> string \<Rightarrow> string" where
  "secure_filename nfkd filename =
     (let filename = encode_ascii_ignore (nfkd filename);
          filename = replace_char CHR ''/'' CHR '' '' filename
      in strip_chars ''._'' (filename_ascii_strip (join_with ''_'' (split_whitespace filename))))"

subsection \<open>\<^verbatim>\<open>int\<close> of a string\<close>

text \<open>
  \<^verbatim>\<open>int(s)\<close> in base 10. In a string that is not all ASCII the interpreter first
  replaces every Unicode space by a blank; of the code points up to 255 these are 133 and
  160. Then whitespace (the codes 9 to 13 and 32) around the number is skipped, one sign
  may come first, and the digits may be grouped by single underscores that stand between
  two digits. Anything else is a \<^verbatim>\<open>ValueError\<close>, here \<open>None\<close>. So is a numeral
  with more digits than the interpreter's limit \<open>max_digits\<close>
  (\<^verbatim>\<open>sys.get_int_max_str_digits()\<close>, 4300 by default; 0 when there is no limit).
\<close>

definition unicode_spaces :: string where
  "unicode_spaces = [CHR 0x85, CHR 0xA0]"

definition int_whitespace :: string where
  "int_whitespace = [CHR 0x09, CHR 0x0A, CHR 0x0B, CHR 0x0C, CHR 0x0D, CHR 0x20]"

definition digit_value :: "char \<Rightarrow> int" where
  "digit_value c = of_char c - 48"

fun single_underscores :: "string \<Rightarrow> bool" where
  "single_underscores (c # d # cs) =
     (\<not> (c = CHR ''_'' \<and> d = CHR ''_'') \<and> single_underscores (d # cs))"
| "single_underscores cs = True"

definition py_int :: "nat \<Rightarrow> string \<Rightarrow> int option" where
  "py_int max_digits s =
     (let s0 = map (\<lambda>c. if c \<in> set unicode_spaces then CHR 0x20 else c) s;
          s1 = dropWhile (\<lambda>c. c \<in> set int_whitespace) s0;
          negative = (s1 \<noteq> [] \<and> hd s1 = CHR ''-'');
          s2 = (if s1 \<noteq> [] \<and> (hd s1 = CHR ''+'' \<or> hd s1 = CHR ''-'') then tl s1 else s1);
          body = takeWhile (\<lambda>c. c \<in> set ascii_digits \<or> c = CHR ''_'') s2;
          rest = dropWhile (\<lambda>c. c \<in> set ascii_digits \<or> c = CHR ''_'') s2
      in if body = [] \<or> hd body = CHR ''_'' \<or> last body = CHR ''_''
            \<or> \<not> single_underscores body
            \<or> dropWhile (\<lambda>c. c \<in> set int_whitespace) rest \<noteq> []
            \<or> (0 < max_digits \<and> max_digits < length (filter (\<lambda>c. c \<in> set ascii_digits) body))
         then None
         else Some ((if negative then - 1 else 1)
                * foldl (\<lambda>a c. 10 * a + digit_value c) 0 (filter (\<lambda>c. c \<in> set ascii_digits) body)))"

subsection \<open>\<^verbatim>\<open>os.path.join\<close> and \<^verbatim>\<open>url_for\<close>\<close>

text \<open>
  \<^verbatim>\<open>posixpath.join(a, b)\<close>: an absolute \<open>b\<close> replaces \<open>a\<close>; otherwise the two are
  put together with one slash between them.
\<close>

definition path_join :: "string \<Rightarrow> string \<Rightarrow> string" where
  "path_join a b =
     (if b \<noteq> [] \<and> hd b = CHR ''/'' then b
      else if a = [] \<or> last a = CHR ''/'' then a @ b
      else a @ CHR ''/'' # b)"

text \<open>
  \<^verbatim>\<open>url_for('download_file', name=n)\<close> builds the path of the route
  \<^verbatim>\<open>/uploads/<name>\<close>: the prefix followed by \<open>n\<close>, percent-encoded but for the
  letters, the digits and the characters \<^verbatim>\<open>_.-~!$&'()*+,/:;=@\<close>. The application is
  mounted at the root. A character is encoded through the bytes of its UTF-8 form: one
  byte below 128, two bytes from 128 to 255.
\<close>

definition url_safe_chars :: string where
  "url_safe_chars =
     ascii_uppercase @ ascii_lowercase @ ascii_digits @ ''_.-~'' @ ''!$&'' @ [CHR 0x27]
       @ ''()*+,/:;=@''"

definition utf8_bytes :: "char \<Rightarrow> nat list" where
  "utf8_bytes c =
     (if (of_char c :: nat) < 128 then [of_char c]
      else [192 + of_char c div 64, 128 + of_char c mod 64])"

definition percent_byte :: "nat \<Rightarrow> string" where
  "percent_byte b =
     [CHR ''%'', ''0123456789ABCDEF'' ! (b div 16), ''0123456789ABCDEF'' ! (b mod 16)]"

definition percent_encode :: "char \<Rightarrow> string" where
  "percent_encode c = concat (map percent_byte (utf8_bytes c))"

definition url_quote :: "string \<Rightarrow> string" where
  "url_quote s = concat (map (\<lambda>c. if c \<in> set url_safe_chars then [c] else percent_encode c) s)"

definition url_for_download_file :: "string \<Rightarrow> string" where
  "url_for_download_file n = ''/uploads/'' @ url_quote n"

section \<open>Requests, stores and responses\<close>

record file_storage =
  filename :: string
  stream :: string

datatype http_method = GET | POST | HEAD

text \<open>
  \<^verbatim>\<open>request.form\<close> and \<^verbatim>\<open>request.files\<close> are multi-dictionaries:
  \<^verbatim>\<open>get\<close> and indexing return the first value stored under a key.
\<close>

record request =
  request_method :: http_method
  url :: string
  form :: "(string \<times> string) list"
  files :: "(string \<times> file_storage) list"

definition form_get :: "request \<Rightarrow> string \<Rightarrow> string option" where
  "form_get r k = map_of (form r) k"

definition files_get :: "request \<Rightarrow> string \<Rightarrow> file_storage option" where
  "files_get r k = map_of (files r) k"

text \<open>An \<^verbatim>\<open>ObjectId\<close> of the document store, kept as its hexadecimal text.\<close>

datatype object_id = ObjectId string

fun str_object_id :: "object_id \<Rightarrow> string" where
  "str_object_id (ObjectId h) = h"

text \<open>A row of the table \<^verbatim>\<open>products\<close>; an absent form field is stored as null.\<close>

record product =
  name :: "string option"
  image_mongodb_id :: string
  stock_count :: int
  review :: string

text \<open>
  The exceptions that the body of the \<^verbatim>\<open>try\<close> block can raise: the forced
  failure of line 56, the \<^verbatim>\<open>TypeError\<close> of \<^verbatim>\<open>os.path.join\<close> when the upload
  directory is not configured, an error of \<^verbatim>\<open>file.save\<close>, of the document store, of
  \<^verbatim>\<open>psycopg2.connect\<close>, the \<^verbatim>\<open>TypeError\<close> and \<^verbatim>\<open>ValueError\<close> of
  \<^verbatim>\<open>int\<close>, an error of the insert statement or its commit, and the
  \<^verbatim>\<open>RuntimeError\<close> of \<^verbatim>\<open>flash\<close> when the session is not available. The
  errors of a collaborator carry its text.
\<close>

datatype exn =
    Forced_failure
  | Type_error_join
  | Save_error string
  | Mongo_error string
  | Pg_connect_error string
  | Type_error_int
  | Value_error_int string
  | Pg_insert_error string
  | Runtime_error_session

text \<open>
  Log records and flashed messages. The formatted messages keep the value they are built
  from: \<open>Error_failed e\<close> is \<^verbatim>\<open>logger.error(f"Failed: {str(e)}")\<close>,
  \<open>Info_fetched n\<close> is \<^verbatim>\<open>logger.info(f"Fetched {n} images from MongoDB.")\<close>,
  and \<open>Flash_error_occurred e\<close> is \<^verbatim>\<open>flash(f"An error occurred: {str(e)}")\<close>.
\<close>

datatype log_record =
    Info string
  | Error string
  | Error_failed exn
  | Info_fetched nat

datatype flash_message =
    Flash string
  | Flash_error_occurred exn

text \<open>
  A write to one of the three stores. The field \<open>effects\<close> of the state below lists
  the writes in the order in which they happen.
\<close>

datatype effect =
    File_write string string
  | Metadata_insert object_id string
  | Product_insert product

text \<open>
  The answers of the views: a redirect to a URL, the dictionary or the HTML page of a
  successful upload (filename and image URL), a rendered template, the listing as JSON or
  as a rendered page (the image URLs), the text of the home page, and an exception that
  leaves a view (the client gets the status 500).
\<close>

datatype response =
    Redirect string
  | Json_upload string string
  | Html_upload string string
  | Render_template string
  | Json_images "string list"
  | Render_images "string list"
  | Html_text string
  | Internal_server_error exn

text \<open>
  Modelled from the spec: \<^verbatim>\<open>create_mongodb_connection\<close> (the module
  \<^verbatim>\<open>db/mongodb/mongodb_connection.py\<close> is not among the sources) gives the collection of
  the Metadata Store, ``a document store holding one record per uploaded file (file name)'',
  each record with a store-generated identifier and a \<^verbatim>\<open>file_path\<close>. The store is
  the list of its records in insertion order; the Blob Directory maps a path to the bytes
  written there; the Catalog Store is the list of its committed rows. The field
  \<open>app_log\<close> lists the records that the calls of \<^verbatim>\<open>logger\<close> in \<^verbatim>\<open>main.py\<close>
  have emitted, oldest first.
\<close>

record world =
  blob_directory :: "string \<rightharpoonup> string"
  metadata_store :: "(object_id \<times> string) list"
  catalog_store :: "product list"
  app_log :: "log_record list"
  flashes :: "flash_message list"
  effects :: "effect list"

text \<open>
  The configuration of the application: the two environment variables that
  \<^verbatim>\<open>main.py\<close> reads, the secret key of the Flask application, and the name of the
  module (\<^verbatim>\<open>__name__\<close>), which is the name of its logger. \<^verbatim>\<open>main.py\<close> creates
  the application and sets \<^verbatim>\<open>UPLOAD_FOLDER\<close> only, so the secret key is
  \<^verbatim>\<open>None\<close> unless another module sets it.
\<close>

record config =
  UPLOAD_FOLDER :: "string option"
  ENV_MODE :: "string option"
  SECRET_KEY :: "string option"
  LOGGER_NAME :: string

text \<open>
  What the collaborators do in one request: whether a write to a path fails, whether the
  document store fails, the identifier it generates, whether the connection to the
  relational store fails and whether it rejects a row. A failed operation leaves its store
  as it was. The interpreter gives its limit on the digits of a numeral and the text
  (\<^verbatim>\<open>str(e)\<close>) of the exceptions that it or the framework raises.
\<close>

record environment =
  nfkd :: "string \<Rightarrow> string"
  save_error :: "string \<Rightarrow> string \<Rightarrow> string option"
  mongo_error :: "string option"
  inserted_id :: object_id
  pg_connect_error :: "string option"
  pg_insert_error :: "product \<Rightarrow> string option"
  int_max_str_digits :: nat
  interpreter_text :: "exn \<Rightarrow> string"

section \<open>Operations on the stores\<close>

type_synonym 'a action = "world \<Rightarrow> (exn + 'a) \<times> world"

definition and_then :: "'a action \<Rightarrow> ('a \<Rightarrow> 'b action) \<Rightarrow> 'b action" where
  "and_then m f = (\<lambda>s. case m s of (Inl e, s') \<Rightarrow> (Inl e, s') | (Inr a, s') \<Rightarrow> f a s')"

definition logger_info :: "string \<Rightarrow> world \<Rightarrow> world" where
  "logger_info msg s = s\<lparr>app_log := app_log s @ [Info msg]\<rparr>"

definition logger_error :: "log_record \<Rightarrow> world \<Rightarrow> world" where
  "logger_error rec s = s\<lparr>app_log := app_log s @ [rec]\<rparr>"

text \<open>
  \<^verbatim>\<open>flash\<close> stores the message in the session. Flask signs the session with the
  secret key of the application; when the key is \<^verbatim>\<open>None\<close> or empty the session is
  not available and storing into it raises a \<^verbatim>\<open>RuntimeError\<close>.
\<close>

definition session_available :: "config \<Rightarrow> bool" where
  "session_available cfg = (case SECRET_KEY cfg of None \<Rightarrow> False | Some k \<Rightarrow> k \<noteq> [])"

definition flash :: "config \<Rightarrow> flash_message \<Rightarrow> unit action" where
  "flash cfg m =
     (\<lambda>s. if session_available cfg then (Inr (), s\<lparr>flashes := flashes s @ [m]\<rparr>)
          else (Inl Runtime_error_session, s))"

definition os_path_join :: "string option \<Rightarrow> string \<Rightarrow> string action" where
  "os_path_join folder n =
     (\<lambda>s. case folder of None \<Rightarrow> (Inl Type_error_join, s) | Some d \<Rightarrow> (Inr (path_join d n), s))"

definition file_save :: "environment \<Rightarrow> file_storage \<Rightarrow> string \<Rightarrow> unit action" where
  "file_save env file path =
     (\<lambda>s. case save_error env path (stream file) of
             Some msg \<Rightarrow> (Inl (Save_error msg), s)
           | None \<Rightarrow>
               (Inr (),
                s\<lparr>blob_directory := (blob_directory s)(path \<mapsto> stream file),
                  effects := effects s @ [File_write path (stream file)]\<rparr>))"

definition insert_one :: "environment \<Rightarrow> string \<Rightarrow> object_id action" where
  "insert_one env file_path =
     (\<lambda>s. case mongo_error env of
             Some msg \<Rightarrow> (Inl (Mongo_error msg), s)
           | None \<Rightarrow>
               (Inr (inserted_id env),
                s\<lparr>metadata_store := metadata_store s @ [(inserted_id env, file_path)],
                  effects := effects s @ [Metadata_insert (inserted_id env) file_path]\<rparr>))"

definition pg_connect :: "environment \<Rightarrow> unit action" where
  "pg_connect env =
     (\<lambda>s. case pg_connect_error env of
             Some msg \<Rightarrow> (Inl (Pg_connect_error msg), s)
           | None \<Rightarrow> (Inr (), s))"

definition int_of_field :: "environment \<Rightarrow> string option \<Rightarrow> int action" where
  "int_of_field env v =
     (\<lambda>s. case v of
             None \<Rightarrow> (Inl Type_error_int, s)
           | Some text \<Rightarrow>
               (case py_int (int_max_str_digits env) text of
                  None \<Rightarrow> (Inl (Value_error_int text), s)
                | Some n \<Rightarrow> (Inr n, s)))"

definition insert_product :: "environment \<Rightarrow> product \<Rightarrow> unit action" where
  "insert_product env row =
     (\<lambda>s. case pg_insert_error env row of
             Some msg \<Rightarrow> (Inl (Pg_insert_error msg), s)
           | None \<Rightarrow>
               (Inr (),
                s\<lparr>catalog_store := catalog_store s @ [row],
                  effects := effects s @ [Product_insert row]\<rparr>))"

section \<open>The upload handler\<close>

text \<open>
  Lines 74 to 119 of \<^verbatim>\<open>upload_file\<close>: the file is saved under the sanitized name,
  the metadata record is inserted, the connection to the relational store is opened, the
  form fields are read, the product row is inserted and committed, and the answer is built.
\<close>

definition store_upload :: "config \<Rightarrow> environment \<Rightarrow> request \<Rightarrow> file_storage \<Rightarrow> response action" where
  "store_upload cfg env r file =
     (let fname = secure_filename (nfkd env) (filename file) in
      and_then (os_path_join (UPLOAD_FOLDER cfg) fname) (\<lambda>file_path.
      and_then (file_save env file file_path) (\<lambda>_.
      and_then (insert_one env fname) (\<lambda>result.
      and_then (pg_connect env) (\<lambda>_.
      and_then (int_of_field env (form_get r ''initial_stock_count'')) (\<lambda>count.
      and_then (insert_product env
                  \<lparr>name = form_get r ''product_name'',
                   image_mongodb_id = str_object_id result,
                   stock_count = count,
                   review = ''Sample Review''\<rparr>) (\<lambda>_.
      (\<lambda>s. (Inr (if ENV_MODE cfg = Some ''backend''
                  then Json_upload fname (url_for_download_file fname)
                  else Html_upload fname (url_for_download_file fname)),
             logger_info ''Success: File upload completed successfully.'' s)))))))))"

text \<open>
  The body of the \<^verbatim>\<open>try\<close> block, lines 52 to 119. It raises, returns a response,
  or (\<open>Inr None\<close>) runs to its end without a \<^verbatim>\<open>return\<close>: that is the case of a file
  whose name fails \<^verbatim>\<open>allowed_file\<close>. The truth value of the file object is that of
  its name. The two calls of \<^verbatim>\<open>flash\<close> stand inside the block, so what they raise
  is raised by the block.
\<close>

definition try_upload :: "config \<Rightarrow> environment \<Rightarrow> request \<Rightarrow> response option action" where
  "try_upload cfg env r s0 =
     (let s1 = logger_info ''Received a POST request to upload a file.'' s0 in
      if form_get r ''force_failure'' = Some ''true'' then (Inl Forced_failure, s1)
      else
        (case files_get r ''file'' of
           None \<Rightarrow>
             (case flash cfg (Flash ''No file part'')
                     (logger_error (Error ''Failed: No file part in the request.'') s1) of
                (Inl e, s2) \<Rightarrow> (Inl e, s2)
              | (Inr _, s2) \<Rightarrow> (Inr (Some (Redirect (url r))), s2))
         | Some file \<Rightarrow>
             if filename file = [] then
               (case flash cfg (Flash ''No selected file'')
                       (logger_error (Error ''Failed: No file selected for upload.'') s1) of
                  (Inl e, s2) \<Rightarrow> (Inl e, s2)
                | (Inr _, s2) \<Rightarrow> (Inr (Some (Redirect (url r))), s2))
             else if filename file \<noteq> [] \<and> allowed_file (filename file) then
               (case store_upload cfg env r file s1 of
                  (Inl e, s2) \<Rightarrow> (Inl e, s2)
                | (Inr resp, s2) \<Rightarrow> (Inr (Some resp), s2))
             else (Inr None, s1)))"

text \<open>
  The \<^verbatim>\<open>except\<close> block, lines 120 to 124: the exception is logged and flashed and
  the client is redirected to the URL of the request. What \<^verbatim>\<open>flash\<close> raises here
  is caught by nothing: it leaves the view.
\<close>

definition except_block :: "config \<Rightarrow> request \<Rightarrow> exn \<Rightarrow> world \<Rightarrow> response \<times> world" where
  "except_block cfg r e s =
     (case flash cfg (Flash_error_occurred e) (logger_error (Error_failed e) s) of
        (Inl e', s') \<Rightarrow> (Internal_server_error e', s')
      | (Inr _, s') \<Rightarrow> (Redirect (url r), s'))"

text \<open>
  \<^verbatim>\<open>upload_file\<close>: a POST request runs the \<^verbatim>\<open>try\<close> block, and the
  \<^verbatim>\<open>except\<close> block when it raises; every path that returns nothing ends at the
  last line, which renders the form.
\<close>

definition upload_file :: "config \<Rightarrow> environment \<Rightarrow> request \<Rightarrow> world \<Rightarrow> response \<times> world" where
  "upload_file cfg env r s =
     (let s0 = logger_info ''Accessed the upload file page.'' s in
      if request_method r = POST then
        (case try_upload cfg env r s0 of
           (Inr (Some resp), s') \<Rightarrow> (resp, s')
         | (Inr None, s') \<Rightarrow> (Render_template ''upload_image.html'', s')
         | (Inl e, s') \<Rightarrow> except_block cfg r e s')
      else (Render_template ''upload_image.html'', s0))"

section \<open>The home page\<close>

definition hello_world :: "world \<Rightarrow> response \<times> world" where
  "hello_world s =
     (Html_text ''<p>Hello, World Elisha!</p>'', logger_info ''Accessed the home page.'' s)"

section \<open>The image listing\<close>

text \<open>
  \<^verbatim>\<open>show_uploaded_images\<close> has no handler of its own: an error of the document store
  leaves the view as an exception. In backend mode the answer is the text that
  \<^verbatim>\<open>json.dumps\<close> makes of the listing.
\<close>

definition show_uploaded_images :: "config \<Rightarrow> environment \<Rightarrow> world \<Rightarrow> response \<times> world" where
  "show_uploaded_images cfg env s =
     (let s0 = logger_info ''Accessed the images page.'' s in
      case mongo_error env of
        Some msg \<Rightarrow> (Internal_server_error (Mongo_error msg), s0)
      | None \<Rightarrow>
          (let data = metadata_store s0;
               s1 = s0\<lparr>app_log := app_log s0 @ [Info_fetched (length data)]\<rparr>;
               parsed = map (\<lambda>d. url_for_download_file (snd d)) data
           in if ENV_MODE cfg = Some ''backend'' then (Json_images parsed, s1)
              else (Render_images parsed, s1)))"

section \<open>The log stream\<close>

definition LF :: char where
  "LF = CHR 0x0A"

definition CR :: char where
  "CR = CHR 0x0D"

text \<open>
  \<^verbatim>\<open>open(LOG_FILE, "r")\<close> opens the file in text mode with universal newlines: a
  carriage return followed by a line feed, and a lone carriage return, are read as one line
  feed. The file is taken to hold text that the default encoding decodes, and to stay as
  it is while it is read.
\<close>

fun universal_newlines :: "string \<Rightarrow> string" where
  "universal_newlines [] = []"
| "universal_newlines (c # cs) =
     (if c = CR
      then (case cs of
              [] \<Rightarrow> [LF]
            | d # ds \<Rightarrow> if d = LF then LF # universal_newlines ds else LF # universal_newlines cs)
      else c # universal_newlines cs)"

text \<open>
  \<^verbatim>\<open>f.readline()\<close> on the unread rest of the text: the characters up to and
  including the next line feed, or all that is left when there is none; the empty string
  at the end of the file. The second component is what stays unread.
\<close>

definition readline :: "string \<Rightarrow> string \<times> string" where
  "readline f =
     (case dropWhile (\<lambda>c. c \<noteq> LF) f of
        [] \<Rightarrow> (f, [])
      | nl # rest \<Rightarrow> (takeWhile (\<lambda>c. c \<noteq> LF) f @ [nl], rest))"

text \<open>
  \<^verbatim>\<open>
  def generate():
      with open(LOG_FILE, "r") as f:
          while True:
              line = f.readline()
              if not line:
                  break
              yield line
  \<close>
  The loop has no bound in its text, so it is a partial function: \<open>None\<close> stands for a
  stream that never ends, \<open>Some ls\<close> for the finite sequence \<open>ls\<close> of yielded lines.
\<close>

partial_function (option) generate :: "string \<Rightarrow> string list option" where
  "generate f =
     (case readline f of
        (line, f') \<Rightarrow>
          if line = [] then Some []
          else Option.bind (generate f') (\<lambda>rest. Some (line # rest)))"

text \<open>
  \<^verbatim>\<open>watch_logs\<close> answers with the stream of \<^verbatim>\<open>generate()\<close> over the log file
  as it is when the request is served.
\<close>

definition watch_logs :: "string \<Rightarrow> string list option" where
  "watch_logs log_file = generate (universal_newlines log_file)"

section \<open>The log file\<close>

text \<open>
  \<^verbatim>\<open>
  LOG_FILE = "app.log"
  handler = RotatingFileHandler(LOG_FILE, maxBytes=10000, backupCount=1)
  logging.basicConfig(level=logging.INFO, handlers=[handler])
  logger = logging.getLogger(__name__)
  \<close>
  A record is written as one line: its level, the name of the logger and its message,
  joined by colons, and a line feed.
\<close>

fun levelname :: "log_record \<Rightarrow> string" where
  "levelname (Info m) = ''INFO''"
| "levelname (Info_fetched n) = ''INFO''"
| "levelname (Error m) = ''ERROR''"
| "levelname (Error_failed e) = ''ERROR''"

text \<open>\<^verbatim>\<open>str(n)\<close> of a natural number: its decimal digits.\<close>

fun str_nat :: "nat \<Rightarrow> string" where
  "str_nat n =
     (if n < 10 then [ascii_digits ! n] else str_nat (n div 10) @ [ascii_digits ! (n mod 10)])"

declare str_nat.simps [simp del]

text \<open>
  \<^verbatim>\<open>str(e)\<close>: the text given at line 56, the text of a collaborator's error, or the
  text that the interpreter or the framework gives its own exception.
\<close>

fun str_exn :: "environment \<Rightarrow> exn \<Rightarrow> string" where
  "str_exn env Forced_failure = ''Forced failure triggered.''"
| "str_exn env (Save_error m) = m"
| "str_exn env (Mongo_error m) = m"
| "str_exn env (Pg_connect_error m) = m"
| "str_exn env (Pg_insert_error m) = m"
| "str_exn env e = interpreter_text env e"

fun record_message :: "environment \<Rightarrow> log_record \<Rightarrow> string" where
  "record_message env (Info m) = m"
| "record_message env (Error m) = m"
| "record_message env (Error_failed e) = ''Failed: '' @ str_exn env e"
| "record_message env (Info_fetched n) = ''Fetched '' @ str_nat n @ '' images from MongoDB.''"

definition format_record :: "config \<Rightarrow> environment \<Rightarrow> log_record \<Rightarrow> string" where
  "format_record cfg env rec =
     levelname rec @ '':'' @ LOGGER_NAME cfg @ '':'' @ record_message env rec @ [LF]"

text \<open>
  \<^verbatim>\<open>RotatingFileHandler.emit\<close>, on the content of \<^verbatim>\<open>app.log\<close>: when the file
  and the new line together reach \<^verbatim>\<open>maxBytes\<close>, the file is first renamed to
  \<^verbatim>\<open>app.log.1\<close> (replacing the backup that was there) and a new, empty
  \<^verbatim>\<open>app.log\<close> is opened; then the line is appended. (An interpreter that does not
  rotate an empty file leaves the same content in \<^verbatim>\<open>app.log\<close>.) A character
  counts as one byte.
\<close>

definition maxBytes :: nat where
  "maxBytes = 10000"

definition emit :: "string \<Rightarrow> string \<Rightarrow> string" where
  "emit line log_file =
     (if maxBytes \<le> length log_file + length line then line else log_file @ line)"

text \<open>
  The content of \<^verbatim>\<open>app.log\<close> after the records \<open>recs\<close> have been logged in
  this order, starting from the content \<open>log_file\<close>.
\<close>

definition log_file_after :: "config \<Rightarrow> environment \<Rightarrow> string \<Rightarrow> log_record list \<Rightarrow> string" where
  "log_file_after cfg env log_file recs =
     foldl (\<lambda>f rec. emit (format_record cfg env rec) f) log_file recs"

section \<open>Example requests\<close>

text \<open>
  The configuration that \<^verbatim>\<open>main.py\<close> builds in backend mode (no secret key), and
  the same with a secret key; collaborators that all succeed, with the texts that
  CPython 3.12 and Flask 3 give their exceptions (for a short literal of plain
  characters); stores that are empty; a POST request that uploads one file with some form
  fields, and a GET request.
\<close>

definition example_config :: config where
  "example_config =
     \<lparr>UPLOAD_FOLDER = Some ''uploads'', ENV_MODE = Some ''backend'', SECRET_KEY = None,
      LOGGER_NAME = ''main''\<rparr>"

definition keyed_config :: config where
  "keyed_config = example_config\<lparr>SECRET_KEY := Some ''dev''\<rparr>"

fun example_text :: "exn \<Rightarrow> string" where
  "example_text Type_error_join = ''expected str, bytes or os.PathLike object, not NoneType''"
| "example_text Type_error_int =
     ''int() argument must be a string, a bytes-like object or a real number, not ''
       @ [CHR 0x27] @ ''NoneType'' @ [CHR 0x27]"
| "example_text (Value_error_int v) =
     ''invalid literal for int() with base 10: '' @ [CHR 0x27] @ v @ [CHR 0x27]"
| "example_text Runtime_error_session =
     ''The session is unavailable because no secret key was set.  Set the secret_key on the application to something unique and secret.''"
| "example_text e = []"

definition example_environment :: environment where
  "example_environment =
     \<lparr>nfkd = (\<lambda>t. t), save_error = (\<lambda>p c. None), mongo_error = None,
      inserted_id = ObjectId ''65f0c0ffee65f0c0ffee0001'', pg_connect_error = None,
      pg_insert_error = (\<lambda>row. None), int_max_str_digits = 4300,
      interpreter_text = example_text\<rparr>"

definition empty_world :: world where
  "empty_world =
     \<lparr>blob_directory = Map.empty, metadata_store = [], catalog_store = [], app_log = [],
      flashes = [], effects = []\<rparr>"

definition example_post :: "string \<Rightarrow> (string \<times> string) list \<Rightarrow> request" where
  "example_post n fs =
     \<lparr>request_method = POST, url = ''http://localhost/upload-file'', form = fs,
      files = [(''file'', \<lparr>filename = n, stream = ''data''\<rparr>)]\<rparr>"

definition example_get :: request where
  "example_get =
     \<lparr>request_method = GET, url = ''http://localhost/upload-file'', form = [], files = []\<rparr>"

section \<open>Properties of the extension check\<close>

lemma rsplit1_decompose:
  assumes "sep \<in> set s"
  shows "s = rev (tl (dropWhile (\<lambda>c. c \<noteq> sep) (rev s))) @ sep # rev (takeWhile (\<lambda>c. c \<noteq> sep) (rev s))"
proof -
  let ?P = "\<lambda>c. c \<noteq> sep"
  from assms have "dropWhile ?P (rev s) \<noteq> []"
    by (simp add: dropWhile_eq_Nil_conv)
  then obtain ys where ys: "dropWhile ?P (rev s) = sep # ys"
    using hd_dropWhile [of ?P "rev s"] by (cases "dropWhile ?P (rev s)") auto
  have "rev s = takeWhile ?P (rev s) @ dropWhile ?P (rev s)"
    by simp
  then have "rev s = takeWhile ?P (rev s) @ sep # ys"
    using ys by simp
  then have "s = rev (takeWhile ?P (rev s) @ sep # ys)"
    by (metis rev_rev_ident)
  then show ?thesis
    using ys by simp
qed

lemma rsplit1_suffix_unique:
  assumes "s = pre @ sep # ext" and "sep \<notin> set ext"
  shows "rev (takeWhile (\<lambda>c. c \<noteq> sep) (rev s)) = ext"
proof -
  have "rev s = rev ext @ sep # rev pre"
    using assms(1) by simp
  moreover have "takeWhile (\<lambda>c. c \<noteq> sep) (rev ext @ sep # rev pre) = rev ext"
  proof -
    have "\<And>x. x \<in> set (rev ext) \<Longrightarrow> x \<noteq> sep"
      using assms(2) by auto
    then have "takeWhile (\<lambda>c. c \<noteq> sep) (rev ext @ sep # rev pre)
        = rev ext @ takeWhile (\<lambda>c. c \<noteq> sep) (sep # rev pre)"
      by (rule takeWhile_append2)
    then show ?thesis
      by simp
  qed
  ultimately show ?thesis
    by simp
qed

lemma rsplit1_last_part:
  assumes "sep \<in> set s"
  shows "rsplit1 sep s ! 1 = rev (takeWhile (\<lambda>c. c \<noteq> sep) (rev s))"
  using assms by (simp add: rsplit1_def)

text \<open>
  Claim C9. \<^verbatim>\<open>allowed_file(f)\<close> is true exactly when \<open>f\<close> contains a dot and the
  text after its last dot, lowercased, is one of txt, pdf, png, jpg, jpeg, gif.
\<close>

theorem allowed_file_iff:
  "allowed_file f \<longleftrightarrow>
     (\<exists>pre ext. f = pre @ CHR ''.'' # ext \<and> CHR ''.'' \<notin> set ext \<and>
        lower ext \<in> {''txt'', ''pdf'', ''png'', ''jpg'', ''jpeg'', ''gif''})"
proof
  assume a: "allowed_file f"
  then have dot: "CHR ''.'' \<in> set f"
    by (simp add: allowed_file_def)
  let ?ext = "rev (takeWhile (\<lambda>c. c \<noteq> CHR ''.'') (rev f))"
  let ?pre = "rev (tl (dropWhile (\<lambda>c. c \<noteq> CHR ''.'') (rev f)))"
  have "f = ?pre @ CHR ''.'' # ?ext"
    using dot by (rule rsplit1_decompose)
  moreover have "CHR ''.'' \<notin> set ?ext"
    using set_takeWhileD [of "CHR ''.''" "\<lambda>c. c \<noteq> CHR ''.''" "rev f"] by auto
  moreover have "lower ?ext \<in> {''txt'', ''pdf'', ''png'', ''jpg'', ''jpeg'', ''gif''}"
  proof -
    have "lower (rsplit1 CHR ''.'' f ! 1) \<in> ALLOWED_EXTENSIONS"
      using a unfolding allowed_file_def by blast
    then have "lower ?ext \<in> ALLOWED_EXTENSIONS"
      unfolding rsplit1_last_part [OF dot] .
    then show ?thesis
      unfolding ALLOWED_EXTENSIONS_def .
  qed
  ultimately show "\<exists>pre ext. f = pre @ CHR ''.'' # ext \<and> CHR ''.'' \<notin> set ext \<and>
        lower ext \<in> {''txt'', ''pdf'', ''png'', ''jpg'', ''jpeg'', ''gif''}"
    by blast
next
  assume "\<exists>pre ext. f = pre @ CHR ''.'' # ext \<and> CHR ''.'' \<notin> set ext \<and>
        lower ext \<in> {''txt'', ''pdf'', ''png'', ''jpg'', ''jpeg'', ''gif''}"
  then obtain pre ext where f: "f = pre @ CHR ''.'' # ext" and nodot: "CHR ''.'' \<notin> set ext"
    and ext: "lower ext \<in> {''txt'', ''pdf'', ''png'', ''jpg'', ''jpeg'', ''gif''}"
    by blast
  have dot: "CHR ''.'' \<in> set f"
    using f by simp
  have "rsplit1 CHR ''.'' f ! 1 = ext"
    unfolding rsplit1_last_part [OF dot] using f nodot by (rule rsplit1_suffix_unique)
  then show "allowed_file f"
    unfolding allowed_file_def ALLOWED_EXTENSIONS_def using dot ext by simp
qed

section \<open>Properties of the log stream\<close>

lemma readline_Nil: "readline [] = ([], [])"
  by (simp add: readline_def)

lemma readline_parts:
  assumes "readline f = (line, f')"
  shows "line @ f' = f"
proof (cases "dropWhile (\<lambda>c. c \<noteq> LF) f")
  case Nil
  with assms show ?thesis unfolding readline_def by simp
next
  case (Cons nl rest)
  with assms have "line = takeWhile (\<lambda>c. c \<noteq> LF) f @ [nl]" and "f' = rest"
    unfolding readline_def by simp_all
  then have "line @ f' = takeWhile (\<lambda>c. c \<noteq> LF) f @ dropWhile (\<lambda>c. c \<noteq> LF) f"
    using Cons by simp
  then show ?thesis by simp
qed

lemma readline_nonempty:
  assumes "readline f = (line, f')" and "f \<noteq> []"
  shows "line \<noteq> []"
  using assms by (auto simp: readline_def split: list.splits)

lemma readline_one_line:
  assumes "readline f = (line, f')"
  shows "LF \<notin> set (butlast line)"
proof (cases "dropWhile (\<lambda>c. c \<noteq> LF) f")
  case Nil
  then have "\<forall>c\<in>set f. c \<noteq> LF" by (simp add: dropWhile_eq_Nil_conv)
  moreover have "line = f" using assms unfolding readline_def Nil by simp
  ultimately show ?thesis by (auto dest: in_set_butlastD)
next
  case (Cons nl rest)
  have "line = takeWhile (\<lambda>c. c \<noteq> LF) f @ [nl]"
    using assms unfolding readline_def Cons by simp
  then have "butlast line = takeWhile (\<lambda>c. c \<noteq> LF) f" by simp
  then show ?thesis using set_takeWhileD [of LF "\<lambda>c. c \<noteq> LF" f] by auto
qed

lemma readline_terminated:
  assumes "readline f = (line, f')" and "f' \<noteq> []"
  shows "last line = LF"
proof (cases "dropWhile (\<lambda>c. c \<noteq> LF) f")
  case Nil
  with assms show ?thesis unfolding readline_def by simp
next
  case (Cons nl rest)
  then have "nl = LF" using hd_dropWhile [of "\<lambda>c. c \<noteq> LF" f] by auto
  moreover have "line = takeWhile (\<lambda>c. c \<noteq> LF) f @ [nl]"
    using assms unfolding readline_def Cons by simp
  ultimately show ?thesis by simp
qed

lemma generate_single_pass:
  "\<exists>ls. generate f = Some ls \<and> concat ls = f \<and>
     (\<forall>l\<in>set ls. l \<noteq> [] \<and> LF \<notin> set (butlast l)) \<and>
     (\<forall>l\<in>set (butlast ls). last l = LF)"
proof (induction f rule: length_induct)
  case (1 f)
  obtain line f' where rl: "readline f = (line, f')"
    by (cases "readline f")
  show ?case
  proof (cases "f = []")
    case True
    then show ?thesis
      by (subst generate.simps) (simp add: readline_Nil)
  next
    case False
    have ne: "line \<noteq> []" using rl False by (rule readline_nonempty)
    have parts: "line @ f' = f" using rl by (rule readline_parts)
    then have "length f' < length f" using ne by (cases line) auto
    with 1 obtain rest where rest: "generate f' = Some rest" "concat rest = f'"
        "\<forall>l\<in>set rest. l \<noteq> [] \<and> LF \<notin> set (butlast l)"
        "\<forall>l\<in>set (butlast rest). last l = LF"
      by blast
    have g: "generate f = Some (line # rest)"
      by (subst generate.simps) (simp add: rl ne rest(1))
    have c: "concat (line # rest) = f" using parts rest(2) by simp
    have one: "LF \<notin> set (butlast line)" using rl by (rule readline_one_line)
    have ended: "rest \<noteq> [] \<Longrightarrow> last line = LF"
    proof -
      assume "rest \<noteq> []"
      then have "f' \<noteq> []" using rest(2,3) by (cases rest) auto
      with rl show "last line = LF" by (rule readline_terminated)
    qed
    have "\<forall>l\<in>set (butlast (line # rest)). last l = LF"
      using rest(4) ended by auto
    with g c ne one rest(3) show ?thesis by simp
  qed
qed

section \<open>Properties of the library functions\<close>

text \<open>
  The sanitized name is made of letters, digits, underscores, dots and hyphens only, and
  does not end with a dot; such a name is its own percent-encoding.
\<close>

lemma strip_chars_subset: "set (strip_chars cs t) \<subseteq> set t"
proof -
  have "set (strip_chars cs t) \<subseteq> set (dropWhile (\<lambda>c. c \<in> set cs) t)"
    unfolding strip_chars_def using set_dropWhileD by fastforce
  also have "\<dots> \<subseteq> set t"
    using set_dropWhileD by fastforce
  finally show ?thesis .
qed

lemma strip_chars_last:
  assumes "strip_chars cs t \<noteq> []"
  shows "last (strip_chars cs t) \<notin> set cs"
proof -
  let ?u = "dropWhile (\<lambda>c. c \<in> set cs) (rev (dropWhile (\<lambda>c. c \<in> set cs) t))"
  have ne: "?u \<noteq> []"
    using assms by (simp add: strip_chars_def)
  then have "hd ?u \<notin> set cs"
    using hd_dropWhile [of "\<lambda>c. c \<in> set cs"] by blast
  moreover have "last (strip_chars cs t) = hd ?u"
    using ne by (simp add: strip_chars_def last_rev)
  ultimately show ?thesis
    by simp
qed

lemma secure_filename_chars: "set (secure_filename n f) \<subseteq> set filename_chars"
proof -
  have "set (secure_filename n f)
      \<subseteq> set (filename_ascii_strip (join_with ''_''
            (split_whitespace (replace_char CHR ''/'' CHR '' '' (encode_ascii_ignore (n f))))))"
    unfolding secure_filename_def Let_def by (rule strip_chars_subset)
  also have "\<dots> \<subseteq> set filename_chars"
    by (auto simp: filename_ascii_strip_def)
  finally show ?thesis .
qed

lemma filename_chars_no_separator:
  "CHR ''/'' \<notin> set filename_chars" "CHR 0x5C \<notin> set filename_chars" "CHR 0x00 \<notin> set filename_chars"
  by (simp_all add: filename_chars_def ascii_uppercase_def ascii_lowercase_def ascii_digits_def)

lemma secure_filename_no_separator:
  "CHR ''/'' \<notin> set (secure_filename n f)" "CHR 0x5C \<notin> set (secure_filename n f)"
  using secure_filename_chars [of n f] filename_chars_no_separator by blast+

lemma secure_filename_last:
  assumes "secure_filename n f \<noteq> []"
  shows "last (secure_filename n f) \<noteq> CHR ''.''"
proof -
  have "last (secure_filename n f) \<notin> set ''._''"
    using assms unfolding secure_filename_def Let_def by (rule strip_chars_last)
  then show ?thesis
    by simp
qed

lemma secure_filename_not_dots:
  "secure_filename n f \<noteq> ''..''" "secure_filename n f \<noteq> ''.''"
  using secure_filename_last [of n f] by auto

lemma filename_chars_url_safe: "set filename_chars \<subseteq> set url_safe_chars"
  by (auto simp: filename_chars_def url_safe_chars_def)

lemma url_quote_safe:
  assumes "set t \<subseteq> set url_safe_chars"
  shows "url_quote t = t"
  using assms by (induction t) (simp_all add: url_quote_def)

lemma url_for_secure_filename:
  "url_for_download_file (secure_filename n f) = ''/uploads/'' @ secure_filename n f"
  using secure_filename_chars [of n f] filename_chars_url_safe
  by (simp add: url_for_download_file_def url_quote_safe subset_trans)

lemma path_join_secure_filename:
  "path_join d (secure_filename n f) =
     (if d = [] \<or> last d = CHR ''/'' then d @ secure_filename n f
      else d @ CHR ''/'' # secure_filename n f)"
proof -
  have "secure_filename n f \<noteq> [] \<Longrightarrow> hd (secure_filename n f) \<noteq> CHR ''/''"
    using secure_filename_no_separator(1) [of n f] hd_in_set by metis
  then show ?thesis
    by (auto simp: path_join_def)
qed

section \<open>Properties of the upload handler\<close>

lemmas action_defs = and_then_def os_path_join_def file_save_def insert_one_def
  pg_connect_def int_of_field_def insert_product_def

lemmas world_defs = logger_info_def logger_error_def

lemmas flash_defs = flash_def session_available_def except_block_def

text \<open>When every step succeeds, all three writes are made and the answer names the file.\<close>

lemma store_upload_success:
  assumes "UPLOAD_FOLDER cfg = Some d"
    and "N = secure_filename (nfkd env) (filename file)"
    and "save_error env (path_join d N) (stream file) = None"
    and "mongo_error env = None"
    and "pg_connect_error env = None"
    and "form_get r ''initial_stock_count'' = Some v"
    and "py_int (int_max_str_digits env) v = Some n"
    and "row = \<lparr>name = form_get r ''product_name'', image_mongodb_id = str_object_id (inserted_id env),
                 stock_count = n, review = ''Sample Review''\<rparr>"
    and "pg_insert_error env row = None"
  shows "store_upload cfg env r file s =
     (Inr (if ENV_MODE cfg = Some ''backend'' then Json_upload N (''/uploads/'' @ N)
           else Html_upload N (''/uploads/'' @ N)),
      s\<lparr>blob_directory := (blob_directory s)(path_join d N \<mapsto> stream file),
        metadata_store := metadata_store s @ [(inserted_id env, N)],
        catalog_store := catalog_store s @ [row],
        app_log := app_log s @ [Info ''Success: File upload completed successfully.''],
        effects := effects s @ [File_write (path_join d N) (stream file),
                                Metadata_insert (inserted_id env) N, Product_insert row]\<rparr>)"
  using assms
  by (simp add: store_upload_def action_defs world_defs Let_def url_for_secure_filename)

text \<open>
  The four ways in which the sequence can end: before any write, after the file write,
  after the metadata insert, or with all three writes done.
\<close>

lemma store_upload_cases:
  assumes "store_upload cfg env r file s = (res, s')"
    and "N = secure_filename (nfkd env) (filename file)"
  shows "flashes s' = flashes s \<and>
    ((\<exists>e. res = Inl e \<and> s' = s)
     \<or> (\<exists>e d. res = Inl e \<and> UPLOAD_FOLDER cfg = Some d \<and>
           s' = s\<lparr>blob_directory := (blob_directory s)(path_join d N \<mapsto> stream file),
                 effects := effects s @ [File_write (path_join d N) (stream file)]\<rparr>)
     \<or> (\<exists>e d. res = Inl e \<and> UPLOAD_FOLDER cfg = Some d \<and>
           (pg_connect_error env \<noteq> None \<or> form_get r ''initial_stock_count'' = None
            \<or> (\<exists>v. form_get r ''initial_stock_count'' = Some v \<and>
                   (py_int (int_max_str_digits env) v = None \<or> (\<exists>n. py_int (int_max_str_digits env) v = Some n \<and> pg_insert_error env
                      \<lparr>name = form_get r ''product_name'',
                       image_mongodb_id = str_object_id (inserted_id env),
                       stock_count = n, review = ''Sample Review''\<rparr> \<noteq> None)))) \<and>
           s' = s\<lparr>blob_directory := (blob_directory s)(path_join d N \<mapsto> stream file),
                 metadata_store := metadata_store s @ [(inserted_id env, N)],
                 effects := effects s @ [File_write (path_join d N) (stream file),
                                         Metadata_insert (inserted_id env) N]\<rparr>)
     \<or> (\<exists>d v n. UPLOAD_FOLDER cfg = Some d \<and> form_get r ''initial_stock_count'' = Some v \<and>
           py_int (int_max_str_digits env) v = Some n \<and>
           res = Inr (if ENV_MODE cfg = Some ''backend'' then Json_upload N (''/uploads/'' @ N)
                      else Html_upload N (''/uploads/'' @ N)) \<and>
           s' = s\<lparr>blob_directory := (blob_directory s)(path_join d N \<mapsto> stream file),
                 metadata_store := metadata_store s @ [(inserted_id env, N)],
                 catalog_store := catalog_store s @
                    [\<lparr>name = form_get r ''product_name'',
                      image_mongodb_id = str_object_id (inserted_id env),
                      stock_count = n, review = ''Sample Review''\<rparr>],
                 app_log := app_log s @ [Info ''Success: File upload completed successfully.''],
                 effects := effects s @ [File_write (path_join d N) (stream file),
                    Metadata_insert (inserted_id env) N,
                    Product_insert \<lparr>name = form_get r ''product_name'',
                      image_mongodb_id = str_object_id (inserted_id env),
                      stock_count = n, review = ''Sample Review''\<rparr>]\<rparr>))"
  using assms
  by (auto simp: store_upload_def action_defs world_defs Let_def url_for_secure_filename
      split: option.splits)

lemma allowed_file_nonempty: "allowed_file f \<Longrightarrow> f \<noteq> []"
  by (auto simp: allowed_file_def)

text \<open>A POST request that passes the checks is answered from the result of the sequence.\<close>

lemma upload_file_accepted:
  assumes "request_method r = POST"
    and "form_get r ''force_failure'' \<noteq> Some ''true''"
    and "files_get r ''file'' = Some file"
    and "allowed_file (filename file)"
  shows "upload_file cfg env r s =
    (case store_upload cfg env r file
            (logger_info ''Received a POST request to upload a file.''
              (logger_info ''Accessed the upload file page.'' s)) of
       (Inl e, s2) \<Rightarrow> except_block cfg r e s2
     | (Inr resp, s2) \<Rightarrow> (resp, s2))"
  using assms allowed_file_nonempty [of "filename file"]
  by (simp add: upload_file_def try_upload_def Let_def split: prod.splits sum.splits)

text \<open>
  Claim C1. A POST upload in backend mode of a file with an allowed extension whose
  sanitized name is \<open>N\<close>, with a stock count that \<^verbatim>\<open>int\<close> accepts, where the
  write of the file and both inserts succeed, is answered by the structured response with
  the filename \<open>N\<close> and the URL \<^verbatim>\<open>/uploads/\<close>\<open>N\<close>; and the image listing that
  is served next in backend mode (its query of the document store succeeding) contains
  that URL.
\<close>

theorem upload_then_list:
  assumes "request_method r = POST"
    and "ENV_MODE cfg = Some ''backend''"
    and "form_get r ''force_failure'' \<noteq> Some ''true''"
    and "files_get r ''file'' = Some file"
    and "allowed_file (filename file)"
    and "N = secure_filename (nfkd env) (filename file)"
    and "UPLOAD_FOLDER cfg = Some d"
    and "save_error env (path_join d N) (stream file) = None"
    and "mongo_error env = None"
    and "pg_connect_error env = None"
    and "form_get r ''initial_stock_count'' = Some v"
    and "py_int (int_max_str_digits env) v = Some n"
    and "pg_insert_error env
           \<lparr>name = form_get r ''product_name'', image_mongodb_id = str_object_id (inserted_id env),
            stock_count = n, review = ''Sample Review''\<rparr> = None"
    and "upload_file cfg env r s = (resp, s')"
    and "mongo_error env2 = None"
  shows "resp = Json_upload N (''/uploads/'' @ N) \<and>
    (\<exists>urls s''. show_uploaded_images cfg env2 s' = (Json_images urls, s'') \<and>
       ''/uploads/'' @ N \<in> set urls)"
proof -
  let ?s1 = "logger_info ''Received a POST request to upload a file.''
              (logger_info ''Accessed the upload file page.'' s)"
  let ?row = "\<lparr>name = form_get r ''product_name'',
      image_mongodb_id = str_object_id (inserted_id env), stock_count = n,
      review = ''Sample Review''\<rparr>"
  have st: "store_upload cfg env r file ?s1 =
     (Inr (Json_upload N (''/uploads/'' @ N)),
      ?s1\<lparr>blob_directory := (blob_directory ?s1)(path_join d N \<mapsto> stream file),
        metadata_store := metadata_store ?s1 @ [(inserted_id env, N)],
        catalog_store := catalog_store ?s1 @ [?row],
        app_log := app_log ?s1 @ [Info ''Success: File upload completed successfully.''],
        effects := effects ?s1 @ [File_write (path_join d N) (stream file),
                                Metadata_insert (inserted_id env) N, Product_insert ?row]\<rparr>)"
    using store_upload_success [OF assms(7) assms(6) assms(8) assms(9) assms(10) assms(11) assms(12) refl assms(13), of ?s1]
      assms(2) by simp
  have up: "upload_file cfg env r s =
     (Json_upload N (''/uploads/'' @ N),
      ?s1\<lparr>blob_directory := (blob_directory ?s1)(path_join d N \<mapsto> stream file),
        metadata_store := metadata_store ?s1 @ [(inserted_id env, N)],
        catalog_store := catalog_store ?s1 @ [?row],
        app_log := app_log ?s1 @ [Info ''Success: File upload completed successfully.''],
        effects := effects ?s1 @ [File_write (path_join d N) (stream file),
                                Metadata_insert (inserted_id env) N, Product_insert ?row]\<rparr>)"
    unfolding upload_file_accepted [OF assms(1) assms(3) assms(4) assms(5)] st by simp
  from up assms(14) have resp: "resp = Json_upload N (''/uploads/'' @ N)"
    and meta: "metadata_store s' = metadata_store s @ [(inserted_id env, N)]"
    by (auto simp: world_defs)
  have url: "url_for_download_file N = ''/uploads/'' @ N"
    unfolding assms(6) by (rule url_for_secure_filename)
  have "fst (show_uploaded_images cfg env2 s')
      = Json_images (map (\<lambda>d. url_for_download_file (snd d)) (metadata_store s'))"
    using assms(2) assms(15) by (simp add: show_uploaded_images_def Let_def world_defs)
  moreover have "''/uploads/'' @ N \<in> set (map (\<lambda>d. url_for_download_file (snd d)) (metadata_store s'))"
    unfolding meta using url by simp
  ultimately have "\<exists>urls s''. show_uploaded_images cfg env2 s' = (Json_images urls, s'') \<and>
       ''/uploads/'' @ N \<in> set urls"
    by (metis prod.collapse)
  with resp show ?thesis
    by simp
qed

lemmas string_defs = ascii_uppercase_def ascii_lowercase_def ascii_digits_def

lemma photo_png_allowed: "allowed_file ''photo.png''"
  by (simp add: allowed_file_def rsplit1_def lower_def lower_char_def ALLOWED_EXTENSIONS_def
      string_defs)

lemma photo_png_secure: "secure_filename (\<lambda>t. t) ''photo.png'' = ''photo.png''"
  by (simp add: secure_filename_def encode_ascii_ignore_def replace_char_def
      split_whitespace_def str_whitespace_def filename_ascii_strip_def filename_chars_def
      strip_chars_def string_defs)

lemma py_int_examples:
  "py_int 4300 ''5'' = Some 5" "py_int 4300 ''-5'' = Some (- 5)" "py_int 4300 ''abc'' = None"
  by (simp_all add: py_int_def int_whitespace_def unicode_spaces_def ascii_digits_def
      digit_value_def)

lemmas example_defs = example_config_def example_environment_def empty_world_def
  example_post_def form_get_def files_get_def

theorem upload_then_list_witness:
  "fst (upload_file example_config example_environment
         (example_post ''photo.png'' [(''product_name'', ''Widget''), (''initial_stock_count'', ''5'')])
         empty_world)
     = Json_upload ''photo.png'' ''/uploads/photo.png'' \<and>
   (\<exists>urls s''. show_uploaded_images example_config example_environment
        (snd (upload_file example_config example_environment
           (example_post ''photo.png'' [(''product_name'', ''Widget''), (''initial_stock_count'', ''5'')])
           empty_world)) = (Json_images urls, s'') \<and> ''/uploads/photo.png'' \<in> set urls)"
proof -
  let ?r = "example_post ''photo.png'' [(''product_name'', ''Widget''), (''initial_stock_count'', ''5'')]"
  let ?file = "\<lparr>filename = ''photo.png'', stream = ''data''\<rparr>"
  have h1: "request_method ?r = POST"
    and h2: "ENV_MODE example_config = Some ''backend''"
    and h3: "form_get ?r ''force_failure'' \<noteq> Some ''true''"
    and h4: "files_get ?r ''file'' = Some ?file"
    and h7: "UPLOAD_FOLDER example_config = Some ''uploads''"
    and h9: "mongo_error example_environment = None"
    and h10: "pg_connect_error example_environment = None"
    and h11: "form_get ?r ''initial_stock_count'' = Some ''5''"
    by (simp_all add: example_defs)
  have h5: "allowed_file (filename ?file)"
    by (simp add: photo_png_allowed)
  have h6: "''photo.png'' = secure_filename (nfkd example_environment) (filename ?file)"
    by (simp add: example_environment_def photo_png_secure)
  have h8: "save_error example_environment (path_join ''uploads'' ''photo.png'') (stream ?file) = None"
    by (simp add: example_environment_def)
  have h12: "py_int (int_max_str_digits example_environment) ''5'' = Some 5"
    by (simp add: example_environment_def py_int_examples)
  have h13: "pg_insert_error example_environment
           \<lparr>name = form_get ?r ''product_name'',
            image_mongodb_id = str_object_id (inserted_id example_environment),
            stock_count = 5, review = ''Sample Review''\<rparr> = None"
    by (simp add: example_environment_def)
  have h14: "upload_file example_config example_environment ?r empty_world
      = (fst (upload_file example_config example_environment ?r empty_world),
         snd (upload_file example_config example_environment ?r empty_world))"
    by simp
  show ?thesis
    using upload_then_list [OF h1 h2 h3 h4 h5 h6 h7 h8 h9 h10 h11 h12 h13 h14 h9] by simp
qed

text \<open>
  A request that is not a POST, is forced to fail, has no file part or has a file whose
  name fails the extension check writes nothing.
\<close>

lemma upload_file_not_accepted:
  assumes "upload_file cfg env r s = (resp, s')"
    and "request_method r \<noteq> POST \<or> form_get r ''force_failure'' = Some ''true''
         \<or> files_get r ''file'' = None
         \<or> (\<exists>file. files_get r ''file'' = Some file \<and> \<not> allowed_file (filename file))"
  shows "blob_directory s' = blob_directory s \<and> metadata_store s' = metadata_store s \<and>
     catalog_store s' = catalog_store s \<and> effects s' = effects s \<and>
     (resp = Redirect (url r) \<or> resp = Render_template ''upload_image.html''
      \<or> resp = Internal_server_error Runtime_error_session)"
  using assms
  by (auto simp: upload_file_def try_upload_def Let_def world_defs flash_defs split: if_splits)

text \<open>
  A file with a name that fails the extension check: the form is rendered again, and
  only the two records of the access are logged.
\<close>

lemma upload_file_disallowed:
  assumes "request_method r = POST"
    and "form_get r ''force_failure'' \<noteq> Some ''true''"
    and "files_get r ''file'' = Some f"
    and "filename f \<noteq> []"
    and "\<not> allowed_file (filename f)"
  shows "upload_file cfg env r s =
    (Render_template ''upload_image.html'',
     s\<lparr>app_log := app_log s @ [Info ''Accessed the upload file page.'',
        Info ''Received a POST request to upload a file.'']\<rparr>)"
  using assms by (simp add: upload_file_def try_upload_def Let_def world_defs)

text \<open>What one call of the handler does to the stores, and the answer in each case.\<close>

lemma upload_file_stores:
  assumes "upload_file cfg env r s = (resp, s')"
  shows
    "(blob_directory s' = blob_directory s \<and> metadata_store s' = metadata_store s \<and>
      catalog_store s' = catalog_store s \<and> effects s' = effects s \<and>
      (resp = Redirect (url r) \<or> resp = Render_template ''upload_image.html''
       \<or> resp = Internal_server_error Runtime_error_session))
     \<or> (\<exists>file d. files_get r ''file'' = Some file \<and> UPLOAD_FOLDER cfg = Some d \<and>
           blob_directory s' = (blob_directory s)
              (path_join d (secure_filename (nfkd env) (filename file)) \<mapsto> stream file) \<and>
           metadata_store s' = metadata_store s \<and> catalog_store s' = catalog_store s \<and>
           effects s' = effects s @
              [File_write (path_join d (secure_filename (nfkd env) (filename file))) (stream file)] \<and>
           (resp = Redirect (url r) \<or> resp = Internal_server_error Runtime_error_session))
     \<or> (\<exists>file d. files_get r ''file'' = Some file \<and> UPLOAD_FOLDER cfg = Some d \<and>
           blob_directory s' = (blob_directory s)
              (path_join d (secure_filename (nfkd env) (filename file)) \<mapsto> stream file) \<and>
           metadata_store s' = metadata_store s @
              [(inserted_id env, secure_filename (nfkd env) (filename file))] \<and>
           catalog_store s' = catalog_store s \<and>
           effects s' = effects s @
              [File_write (path_join d (secure_filename (nfkd env) (filename file))) (stream file),
               Metadata_insert (inserted_id env) (secure_filename (nfkd env) (filename file))] \<and>
           (resp = Redirect (url r) \<or> resp = Internal_server_error Runtime_error_session))
     \<or> (\<exists>file d v n. files_get r ''file'' = Some file \<and> UPLOAD_FOLDER cfg = Some d \<and>
           form_get r ''initial_stock_count'' = Some v \<and> py_int (int_max_str_digits env) v = Some n \<and>
           blob_directory s' = (blob_directory s)
              (path_join d (secure_filename (nfkd env) (filename file)) \<mapsto> stream file) \<and>
           metadata_store s' = metadata_store s @
              [(inserted_id env, secure_filename (nfkd env) (filename file))] \<and>
           catalog_store s' = catalog_store s @
              [\<lparr>name = form_get r ''product_name'',
                image_mongodb_id = str_object_id (inserted_id env),
                stock_count = n, review = ''Sample Review''\<rparr>] \<and>
           effects s' = effects s @
              [File_write (path_join d (secure_filename (nfkd env) (filename file))) (stream file),
               Metadata_insert (inserted_id env) (secure_filename (nfkd env) (filename file)),
               Product_insert \<lparr>name = form_get r ''product_name'',
                image_mongodb_id = str_object_id (inserted_id env),
                stock_count = n, review = ''Sample Review''\<rparr>] \<and>
           resp = (if ENV_MODE cfg = Some ''backend''
                   then Json_upload (secure_filename (nfkd env) (filename file))
                          (''/uploads/'' @ secure_filename (nfkd env) (filename file))
                   else Html_upload (secure_filename (nfkd env) (filename file))
                          (''/uploads/'' @ secure_filename (nfkd env) (filename file))))"
    (is "?A \<or> ?B \<or> ?C \<or> ?D")
proof (cases "request_method r = POST \<and> form_get r ''force_failure'' \<noteq> Some ''true''
    \<and> (\<exists>file. files_get r ''file'' = Some file \<and> allowed_file (filename file))")
  case False
  then have "request_method r \<noteq> POST \<or> form_get r ''force_failure'' = Some ''true''
         \<or> files_get r ''file'' = None
         \<or> (\<exists>file. files_get r ''file'' = Some file \<and> \<not> allowed_file (filename file))"
    by (cases "files_get r ''file''") auto
  with assms have ?A
    by (rule upload_file_not_accepted)
  then show ?thesis
    by (rule disjI1)
next
  case True
  then obtain f where post: "request_method r = POST"
    and ff: "form_get r ''force_failure'' \<noteq> Some ''true''"
    and fl: "files_get r ''file'' = Some f" and ok: "allowed_file (filename f)"
    by blast
  let ?s1 = "logger_info ''Received a POST request to upload a file.''
              (logger_info ''Accessed the upload file page.'' s)"
  obtain res s2 where st: "store_upload cfg env r f ?s1 = (res, s2)"
    by (cases "store_upload cfg env r f ?s1")
  have up: "(resp, s') = (case res of
       Inl e \<Rightarrow> except_block cfg r e s2
     | Inr resp \<Rightarrow> (resp, s2))"
    using assms upload_file_accepted [OF post ff fl ok, of cfg env s] st
    by (simp split: sum.splits)
  from store_upload_cases [OF st refl]
  consider
      (nothing) e where "res = Inl e" "s2 = ?s1"
    | (file_only) e d where "res = Inl e" "UPLOAD_FOLDER cfg = Some d"
        "s2 = ?s1\<lparr>blob_directory := (blob_directory ?s1)
                 (path_join d (secure_filename (nfkd env) (filename f)) \<mapsto> stream f),
               effects := effects ?s1 @
                 [File_write (path_join d (secure_filename (nfkd env) (filename f))) (stream f)]\<rparr>"
    | (file_and_record) e d where "res = Inl e" "UPLOAD_FOLDER cfg = Some d"
        "s2 = ?s1\<lparr>blob_directory := (blob_directory ?s1)
                 (path_join d (secure_filename (nfkd env) (filename f)) \<mapsto> stream f),
               metadata_store := metadata_store ?s1 @
                 [(inserted_id env, secure_filename (nfkd env) (filename f))],
               effects := effects ?s1 @
                 [File_write (path_join d (secure_filename (nfkd env) (filename f))) (stream f),
                  Metadata_insert (inserted_id env) (secure_filename (nfkd env) (filename f))]\<rparr>"
    | (all_three) d v n where "UPLOAD_FOLDER cfg = Some d"
        "form_get r ''initial_stock_count'' = Some v" "py_int (int_max_str_digits env) v = Some n"
        "res = Inr (if ENV_MODE cfg = Some ''backend''
                   then Json_upload (secure_filename (nfkd env) (filename f))
                          (''/uploads/'' @ secure_filename (nfkd env) (filename f))
                   else Html_upload (secure_filename (nfkd env) (filename f))
                          (''/uploads/'' @ secure_filename (nfkd env) (filename f)))"
        "s2 = ?s1\<lparr>blob_directory := (blob_directory ?s1)
                 (path_join d (secure_filename (nfkd env) (filename f)) \<mapsto> stream f),
               metadata_store := metadata_store ?s1 @
                 [(inserted_id env, secure_filename (nfkd env) (filename f))],
               catalog_store := catalog_store ?s1 @
                 [\<lparr>name = form_get r ''product_name'',
                   image_mongodb_id = str_object_id (inserted_id env),
                   stock_count = n, review = ''Sample Review''\<rparr>],
               app_log := app_log ?s1 @ [Info ''Success: File upload completed successfully.''],
               effects := effects ?s1 @
                 [File_write (path_join d (secure_filename (nfkd env) (filename f))) (stream f),
                  Metadata_insert (inserted_id env) (secure_filename (nfkd env) (filename f)),
                  Product_insert \<lparr>name = form_get r ''product_name'',
                   image_mongodb_id = str_object_id (inserted_id env),
                   stock_count = n, review = ''Sample Review''\<rparr>]\<rparr>"
    by (elim conjE disjE exE) blast+
  then show ?thesis
  proof cases
    case nothing
    with up have ?A
      by (auto simp: world_defs flash_defs split: if_splits)
    then show ?thesis
      by (rule disjI1)
  next
    case file_only
    with up fl have ?B
      by (auto simp: world_defs flash_defs split: if_splits)
    then show ?thesis
      by (intro disjI2 disjI1)
  next
    case file_and_record
    with up fl have ?C
      by (auto simp: world_defs flash_defs split: if_splits)
    then show ?thesis
      by (intro disjI2 disjI1)
  next
    case all_three
    with up fl have ?D
      by (auto simp: world_defs flash_defs split: if_splits)
    then show ?thesis
      by (intro disjI2)
  qed
qed

lemmas handler_defs = upload_file_def try_upload_def store_upload_def action_defs world_defs
  flash_defs
  Let_def path_join_def

lemma malware_exe_not_allowed: "\<not> allowed_file ''malware.exe''"
  by (simp add: allowed_file_def rsplit1_def lower_def lower_char_def ALLOWED_EXTENSIONS_def
      string_defs)

lemma passwd_png_allowed: "allowed_file ''../../etc/passwd.png''"
  by (simp add: allowed_file_def rsplit1_def lower_def lower_char_def ALLOWED_EXTENSIONS_def
      string_defs)

lemma passwd_png_secure: "secure_filename (\<lambda>t. t) ''../../etc/passwd.png'' = ''etc_passwd.png''"
  by (simp add: secure_filename_def encode_ascii_ignore_def replace_char_def
      split_whitespace_def str_whitespace_def filename_ascii_strip_def filename_chars_def
      strip_chars_def string_defs)

lemma etc_passwd_url: "url_for_download_file ''etc_passwd.png'' = ''/uploads/etc_passwd.png''"
  using url_for_secure_filename [of "\<lambda>t. t" "''../../etc/passwd.png''"]
  by (simp add: passwd_png_secure)

lemma photo_png_url: "url_for_download_file ''photo.png'' = ''/uploads/photo.png''"
  using url_for_secure_filename [of "\<lambda>t. t" "''photo.png''"]
  by (simp add: photo_png_secure)

text \<open>
  Claim C2. In every execution of \<^verbatim>\<open>upload_file\<close> the writes to the stores are an
  initial part of the sequence: file write, metadata insert, product insert. So a product
  row is inserted only after the file has been written and the metadata record has been
  inserted, and the row carries the text of the identifier generated for that record.
\<close>

theorem effects_in_order:
  assumes "upload_file cfg env r s = (resp, s')"
  shows "\<exists>es. effects s' = effects s @ es \<and>
     ((es = [] \<and> metadata_store s' = metadata_store s \<and> catalog_store s' = catalog_store s)
      \<or> (\<exists>p c. es = [File_write p c] \<and> blob_directory s' p = Some c \<and>
            metadata_store s' = metadata_store s \<and> catalog_store s' = catalog_store s)
      \<or> (\<exists>p c i n. es = [File_write p c, Metadata_insert i n] \<and> blob_directory s' p = Some c \<and>
            metadata_store s' = metadata_store s @ [(i, n)] \<and> catalog_store s' = catalog_store s)
      \<or> (\<exists>p c i n row. es = [File_write p c, Metadata_insert i n, Product_insert row] \<and>
            blob_directory s' p = Some c \<and> metadata_store s' = metadata_store s @ [(i, n)] \<and>
            catalog_store s' = catalog_store s @ [row] \<and>
            image_mongodb_id row = str_object_id i))"
  using upload_file_stores [OF assms]
  by (elim disjE conjE exE) simp_all

theorem effects_in_order_witness:
  "effects (snd (upload_file example_config example_environment
      (example_post ''photo.png'' [(''product_name'', ''Widget''), (''initial_stock_count'', ''5'')])
      empty_world))
   = [File_write ''uploads/photo.png'' ''data'',
      Metadata_insert (ObjectId ''65f0c0ffee65f0c0ffee0001'') ''photo.png'',
      Product_insert \<lparr>name = Some ''Widget'', image_mongodb_id = ''65f0c0ffee65f0c0ffee0001'',
        stock_count = 5, review = ''Sample Review''\<rparr>]"
  using effects_in_order [of example_config example_environment
      "example_post ''photo.png'' [(''product_name'', ''Widget''), (''initial_stock_count'', ''5'')]"
      empty_world
      "fst (upload_file example_config example_environment
        (example_post ''photo.png'' [(''product_name'', ''Widget''), (''initial_stock_count'', ''5'')])
        empty_world)"
      "snd (upload_file example_config example_environment
        (example_post ''photo.png'' [(''product_name'', ''Widget''), (''initial_stock_count'', ''5'')])
        empty_world)"]
  by (simp add: handler_defs example_defs photo_png_allowed photo_png_secure py_int_examples)

text \<open>
  Claim C3, evaluated on the upload of \<^verbatim>\<open>malware.exe\<close>: nothing is written and
  nothing is inserted, but the client is not redirected and nothing is flashed. The request
  falls through to the last line of the handler, which renders the upload form; the log
  has no error record.
\<close>

theorem disallowed_extension_renders_form:
  "upload_file example_config example_environment
      (example_post ''malware.exe'' [(''product_name'', ''Widget''), (''initial_stock_count'', ''5'')])
      empty_world
   = (Render_template ''upload_image.html'',
      empty_world\<lparr>app_log := [Info ''Accessed the upload file page.'',
          Info ''Received a POST request to upload a file.'']\<rparr>)"
  by (simp add: handler_defs example_defs malware_exe_not_allowed)

text \<open>
  Claim C5. Whenever an upload is accepted (the answer is the structured response or the
  HTML page), the name in the answer is the sanitized form of the submitted name, the URL
  is \<^verbatim>\<open>/uploads/\<close> followed by it, the file is written directly inside the upload
  directory under it, and the metadata record stores it; it contains no slash and no
  backslash and is neither \<^verbatim>\<open>..\<close> nor \<^verbatim>\<open>.\<close>.
\<close>

theorem accepted_upload_uses_sanitized_name:
  assumes "upload_file cfg env r s = (resp, s')"
    and "resp = Json_upload a b \<or> resp = Html_upload a b"
  shows "\<exists>file d. files_get r ''file'' = Some file \<and> UPLOAD_FOLDER cfg = Some d \<and>
     a = secure_filename (nfkd env) (filename file) \<and>
     b = ''/uploads/'' @ a \<and>
     blob_directory s' (if d = [] \<or> last d = CHR ''/'' then d @ a else d @ CHR ''/'' # a)
        = Some (stream file) \<and>
     metadata_store s' = metadata_store s @ [(inserted_id env, a)] \<and>
     (\<exists>row. effects s' = effects s @
        [File_write (if d = [] \<or> last d = CHR ''/'' then d @ a else d @ CHR ''/'' # a) (stream file),
         Metadata_insert (inserted_id env) a, Product_insert row]) \<and>
     CHR ''/'' \<notin> set a \<and> CHR 0x5C \<notin> set a \<and> a \<noteq> ''..'' \<and> a \<noteq> ''.''"
proof -
  from upload_file_stores [OF assms(1)] assms(2)
  obtain f d row where f: "files_get r ''file'' = Some f" and d: "UPLOAD_FOLDER cfg = Some d"
    and blob: "blob_directory s' = (blob_directory s)
              (path_join d (secure_filename (nfkd env) (filename f)) \<mapsto> stream f)"
    and meta: "metadata_store s' = metadata_store s @
              [(inserted_id env, secure_filename (nfkd env) (filename f))]"
    and eff: "effects s' = effects s @
              [File_write (path_join d (secure_filename (nfkd env) (filename f))) (stream f),
               Metadata_insert (inserted_id env) (secure_filename (nfkd env) (filename f)),
               Product_insert row]"
    and resp: "resp = (if ENV_MODE cfg = Some ''backend''
                   then Json_upload (secure_filename (nfkd env) (filename f))
                          (''/uploads/'' @ secure_filename (nfkd env) (filename f))
                   else Html_upload (secure_filename (nfkd env) (filename f))
                          (''/uploads/'' @ secure_filename (nfkd env) (filename f)))"
    by (elim disjE conjE exE) auto
  have a: "a = secure_filename (nfkd env) (filename f)" and b: "b = ''/uploads/'' @ a"
    using resp assms(2) by (auto split: if_splits)
  have path: "path_join d a = (if d = [] \<or> last d = CHR ''/'' then d @ a else d @ CHR ''/'' # a)"
    unfolding a by (rule path_join_secure_filename)
  have safe: "CHR ''/'' \<notin> set a" "CHR 0x5C \<notin> set a" "a \<noteq> ''..''" "a \<noteq> ''.''"
    unfolding a by (rule secure_filename_no_separator secure_filename_not_dots)+
  have "blob_directory s' (path_join d a) = Some (stream f)"
    using blob a by simp
  moreover have "effects s' = effects s @
        [File_write (path_join d a) (stream f), Metadata_insert (inserted_id env) a, Product_insert row]"
    using eff a by simp
  ultimately show ?thesis
    using f d a b meta safe unfolding path by blast
qed

theorem accepted_upload_uses_sanitized_name_witness:
  "upload_file example_config example_environment
      (example_post ''../../etc/passwd.png'' [(''product_name'', ''Widget''), (''initial_stock_count'', ''5'')])
      empty_world
   = (Json_upload ''etc_passwd.png'' ''/uploads/etc_passwd.png'',
      \<lparr>blob_directory = [''uploads/etc_passwd.png'' \<mapsto> ''data''],
       metadata_store = [(ObjectId ''65f0c0ffee65f0c0ffee0001'', ''etc_passwd.png'')],
       catalog_store = [\<lparr>name = Some ''Widget'', image_mongodb_id = ''65f0c0ffee65f0c0ffee0001'',
          stock_count = 5, review = ''Sample Review''\<rparr>],
       app_log = [Info ''Accessed the upload file page.'',
          Info ''Received a POST request to upload a file.'',
          Info ''Success: File upload completed successfully.''],
       flashes = [],
       effects = [File_write ''uploads/etc_passwd.png'' ''data'',
          Metadata_insert (ObjectId ''65f0c0ffee65f0c0ffee0001'') ''etc_passwd.png'',
          Product_insert \<lparr>name = Some ''Widget'', image_mongodb_id = ''65f0c0ffee65f0c0ffee0001'',
            stock_count = 5, review = ''Sample Review''\<rparr>]\<rparr>)"
  using accepted_upload_uses_sanitized_name [of example_config example_environment
      "example_post ''../../etc/passwd.png'' [(''product_name'', ''Widget''), (''initial_stock_count'', ''5'')]"
      empty_world
      "Json_upload ''etc_passwd.png'' ''/uploads/etc_passwd.png''" _
      "''etc_passwd.png''" "''/uploads/etc_passwd.png''"]
  by (simp add: handler_defs example_defs passwd_png_allowed passwd_png_secure py_int_examples
      etc_passwd_url)

text \<open>
  Claim C6 as stated fails: the stock count \<^verbatim>\<open>-5\<close> is accepted by \<^verbatim>\<open>int\<close>, the
  upload succeeds and the inserted row has the stock count \<open>-5\<close>.
\<close>

theorem negative_stock_count_counterexample:
  "py_int (int_max_str_digits example_environment) ''-5'' = Some (- 5) \<and>
   fst (upload_file example_config example_environment
      (example_post ''photo.png'' [(''product_name'', ''Widget''), (''initial_stock_count'', ''-5'')])
      empty_world) = Json_upload ''photo.png'' ''/uploads/photo.png'' \<and>
   catalog_store (snd (upload_file example_config example_environment
      (example_post ''photo.png'' [(''product_name'', ''Widget''), (''initial_stock_count'', ''-5'')])
      empty_world))
     = [\<lparr>name = Some ''Widget'', image_mongodb_id = ''65f0c0ffee65f0c0ffee0001'',
         stock_count = - 5, review = ''Sample Review''\<rparr>]"
  by (simp add: handler_defs example_defs photo_png_allowed photo_png_secure py_int_examples
      photo_png_url)

text \<open>
  Claim C6, amended. A call of \<^verbatim>\<open>upload_file\<close> inserts at most one product row, and
  the stock count of that row is the integer that \<^verbatim>\<open>int\<close> reads from the field
  \<^verbatim>\<open>initial_stock_count\<close>, whatever its sign.
\<close>

theorem stock_count_is_parsed_value:
  assumes "upload_file cfg env r s = (resp, s')"
  shows "catalog_store s' = catalog_store s \<or>
     (\<exists>v n. form_get r ''initial_stock_count'' = Some v \<and> py_int (int_max_str_digits env) v = Some n \<and>
        catalog_store s' = catalog_store s @
          [\<lparr>name = form_get r ''product_name'',
            image_mongodb_id = str_object_id (inserted_id env),
            stock_count = n, review = ''Sample Review''\<rparr>])"
  using upload_file_stores [OF assms]
  by (elim disjE conjE exE) simp_all

theorem stock_count_is_parsed_value_witness:
  "catalog_store (snd (upload_file example_config example_environment
      (example_post ''photo.png'' [(''product_name'', ''Gadget''), (''initial_stock_count'', ''5'')])
      empty_world))
     = [\<lparr>name = Some ''Gadget'', image_mongodb_id = ''65f0c0ffee65f0c0ffee0001'',
         stock_count = 5, review = ''Sample Review''\<rparr>] \<and>
   py_int (int_max_str_digits example_environment) ''5'' = Some 5"
  using stock_count_is_parsed_value [of example_config example_environment
      "example_post ''photo.png'' [(''product_name'', ''Gadget''), (''initial_stock_count'', ''5'')]"
      empty_world
      "fst (upload_file example_config example_environment
        (example_post ''photo.png'' [(''product_name'', ''Gadget''), (''initial_stock_count'', ''5'')])
        empty_world)"
      "snd (upload_file example_config example_environment
        (example_post ''photo.png'' [(''product_name'', ''Gadget''), (''initial_stock_count'', ''5'')])
        empty_world)"]
  by (simp add: handler_defs example_defs photo_png_allowed photo_png_secure py_int_examples)

section \<open>The forced failure and the session\<close>

text \<open>
  The \<^verbatim>\<open>except\<close> block with and without a session: with one, the exception is
  logged and flashed and the client is redirected; without one, the exception is logged,
  \<^verbatim>\<open>flash\<close> raises and the view ends with that exception.
\<close>

lemma except_block_with_session:
  assumes "session_available cfg"
  shows "except_block cfg r e s =
    (Redirect (url r),
     s\<lparr>app_log := app_log s @ [Error_failed e],
       flashes := flashes s @ [Flash_error_occurred e]\<rparr>)"
  using assms by (simp add: except_block_def flash_def world_defs)

lemma except_block_without_session:
  assumes "\<not> session_available cfg"
  shows "except_block cfg r e s =
    (Internal_server_error Runtime_error_session, s\<lparr>app_log := app_log s @ [Error_failed e]\<rparr>)"
  using assms by (simp add: except_block_def flash_def world_defs)

lemma upload_file_raised:
  assumes "request_method r = POST"
    and "try_upload cfg env r (logger_info ''Accessed the upload file page.'' s) = (Inl e, s1)"
  shows "upload_file cfg env r s = except_block cfg r e s1"
  using assms by (simp add: upload_file_def Let_def)

text \<open>
  The forced failure with a session: the behaviour that claim C4 describes. No store is
  touched in either case.
\<close>

lemma forced_failure_with_session:
  assumes "request_method r = POST"
    and "form_get r ''force_failure'' = Some ''true''"
    and "session_available cfg"
    and "upload_file cfg env r s = (resp, s')"
  shows "resp = Redirect (url r) \<and>
     flashes s' = flashes s @ [Flash_error_occurred Forced_failure] \<and>
     app_log s' = app_log s @ [Info ''Accessed the upload file page.'',
        Info ''Received a POST request to upload a file.'', Error_failed Forced_failure] \<and>
     blob_directory s' = blob_directory s \<and> metadata_store s' = metadata_store s \<and>
     catalog_store s' = catalog_store s \<and> effects s' = effects s"
  using assms by (auto simp: upload_file_def try_upload_def Let_def world_defs flash_defs)

lemma forced_failure_without_session:
  assumes "request_method r = POST"
    and "form_get r ''force_failure'' = Some ''true''"
    and "\<not> session_available cfg"
    and "upload_file cfg env r s = (resp, s')"
  shows "resp = Internal_server_error Runtime_error_session \<and>
     flashes s' = flashes s \<and>
     app_log s' = app_log s @ [Info ''Accessed the upload file page.'',
        Info ''Received a POST request to upload a file.'', Error_failed Forced_failure] \<and>
     blob_directory s' = blob_directory s \<and> metadata_store s' = metadata_store s \<and>
     catalog_store s' = catalog_store s \<and> effects s' = effects s"
  using assms by (auto simp: upload_file_def try_upload_def Let_def world_defs flash_defs)

lemma forced_failure_keyed_example:
  "upload_file keyed_config example_environment
      (example_post ''photo.png''
         [(''product_name'', ''Widget''), (''initial_stock_count'', ''5''), (''force_failure'', ''true'')])
      empty_world
   = (Redirect ''http://localhost/upload-file'',
      empty_world\<lparr>app_log := [Info ''Accessed the upload file page.'',
          Info ''Received a POST request to upload a file.'', Error_failed Forced_failure],
        flashes := [Flash_error_occurred Forced_failure]\<rparr>)"
  by (simp add: upload_file_def try_upload_def Let_def world_defs flash_defs example_defs
      keyed_config_def)

text \<open>
  Claim C4, evaluated on the application as \<^verbatim>\<open>main.py\<close> configures it (no secret
  key) for a POST request with \<^verbatim>\<open>force_failure=true\<close>: no file is written and nothing
  is inserted, and the exception is logged; but \<^verbatim>\<open>flash\<close> raises inside the
  \<^verbatim>\<open>except\<close> block, so no message is flashed, the client is not redirected and the
  request ends with that exception.
\<close>

theorem forced_failure_answers_server_error:
  "upload_file example_config example_environment
      (example_post ''photo.png''
         [(''product_name'', ''Widget''), (''initial_stock_count'', ''5''), (''force_failure'', ''true'')])
      empty_world
   = (Internal_server_error Runtime_error_session,
      empty_world\<lparr>app_log := [Info ''Accessed the upload file page.'',
          Info ''Received a POST request to upload a file.'', Error_failed Forced_failure]\<rparr>)"
  by (simp add: upload_file_def try_upload_def Let_def world_defs flash_defs example_defs)

section \<open>Failures inside the sequence\<close>

text \<open>
  Where the sequence of \<^verbatim>\<open>store_upload\<close> raises, and what has been written by then:
  nothing when the upload directory is not configured or the file cannot be saved; the
  file when the document store fails; the file and the metadata record when the connection
  to the relational store, the reading of the stock count or the insert of the row fails.
\<close>

lemma store_upload_no_folder:
  assumes "UPLOAD_FOLDER cfg = None"
  shows "store_upload cfg env r f s = (Inl Type_error_join, s)"
  using assms by (simp add: store_upload_def action_defs Let_def)

lemma store_upload_save_failure:
  assumes "UPLOAD_FOLDER cfg = Some d"
    and "save_error env (path_join d (secure_filename (nfkd env) (filename f))) (stream f) = Some msg"
  shows "store_upload cfg env r f s = (Inl (Save_error msg), s)"
  using assms by (simp add: store_upload_def action_defs Let_def)

lemma store_upload_document_store_failure:
  assumes "UPLOAD_FOLDER cfg = Some d"
    and "save_error env (path_join d (secure_filename (nfkd env) (filename f))) (stream f) = None"
    and "mongo_error env = Some msg"
  shows "store_upload cfg env r f s =
     (Inl (Mongo_error msg),
      s\<lparr>blob_directory := (blob_directory s)
            (path_join d (secure_filename (nfkd env) (filename f)) \<mapsto> stream f),
        effects := effects s @
            [File_write (path_join d (secure_filename (nfkd env) (filename f))) (stream f)]\<rparr>)"
  using assms by (simp add: store_upload_def action_defs Let_def)

lemma store_upload_late_failure:
  assumes "UPLOAD_FOLDER cfg = Some d"
    and "save_error env (path_join d (secure_filename (nfkd env) (filename f))) (stream f) = None"
    and "mongo_error env = None"
    and "pg_connect_error env \<noteq> None \<or> form_get r ''initial_stock_count'' = None
         \<or> (\<exists>v. form_get r ''initial_stock_count'' = Some v \<and>
               (py_int (int_max_str_digits env) v = None \<or>
                (\<exists>n. py_int (int_max_str_digits env) v = Some n \<and>
                   pg_insert_error env
                     \<lparr>name = form_get r ''product_name'',
                      image_mongodb_id = str_object_id (inserted_id env),
                      stock_count = n, review = ''Sample Review''\<rparr> \<noteq> None)))"
  shows "\<exists>e. store_upload cfg env r f s =
     (Inl e,
      s\<lparr>blob_directory := (blob_directory s)
            (path_join d (secure_filename (nfkd env) (filename f)) \<mapsto> stream f),
        metadata_store := metadata_store s @
            [(inserted_id env, secure_filename (nfkd env) (filename f))],
        effects := effects s @
            [File_write (path_join d (secure_filename (nfkd env) (filename f))) (stream f),
             Metadata_insert (inserted_id env) (secure_filename (nfkd env) (filename f))]\<rparr>)"
  using assms
  by (auto simp: store_upload_def action_defs Let_def split: option.splits)

text \<open>
  The late failure seen from the handler: the \<^verbatim>\<open>except\<close> block runs on a state that
  holds the file and the metadata record.
\<close>

lemma upload_file_late_failure:
  assumes "request_method r = POST"
    and "form_get r ''force_failure'' \<noteq> Some ''true''"
    and "files_get r ''file'' = Some f"
    and "allowed_file (filename f)"
    and "UPLOAD_FOLDER cfg = Some d"
    and "save_error env (path_join d (secure_filename (nfkd env) (filename f))) (stream f) = None"
    and "mongo_error env = None"
    and "pg_connect_error env \<noteq> None \<or> form_get r ''initial_stock_count'' = None
         \<or> (\<exists>v. form_get r ''initial_stock_count'' = Some v \<and>
               (py_int (int_max_str_digits env) v = None \<or>
                (\<exists>n. py_int (int_max_str_digits env) v = Some n \<and>
                   pg_insert_error env
                     \<lparr>name = form_get r ''product_name'',
                      image_mongodb_id = str_object_id (inserted_id env),
                      stock_count = n, review = ''Sample Review''\<rparr> \<noteq> None)))"
  shows "\<exists>e. upload_file cfg env r s =
     except_block cfg r e
      ((logger_info ''Received a POST request to upload a file.''
          (logger_info ''Accessed the upload file page.'' s))
       \<lparr>blob_directory := (blob_directory s)
            (path_join d (secure_filename (nfkd env) (filename f)) \<mapsto> stream f),
        metadata_store := metadata_store s @
            [(inserted_id env, secure_filename (nfkd env) (filename f))],
        effects := effects s @
            [File_write (path_join d (secure_filename (nfkd env) (filename f))) (stream f),
             Metadata_insert (inserted_id env) (secure_filename (nfkd env) (filename f))]\<rparr>)"
proof -
  let ?s1 = "logger_info ''Received a POST request to upload a file.''
              (logger_info ''Accessed the upload file page.'' s)"
  let ?N = "secure_filename (nfkd env) (filename f)"
  from store_upload_late_failure [OF assms(5) assms(6) assms(7) assms(8), of ?s1]
  obtain e where st: "store_upload cfg env r f ?s1 =
     (Inl e,
      ?s1\<lparr>blob_directory := (blob_directory ?s1)(path_join d ?N \<mapsto> stream f),
        metadata_store := metadata_store ?s1 @ [(inserted_id env, ?N)],
        effects := effects ?s1 @
            [File_write (path_join d ?N) (stream f), Metadata_insert (inserted_id env) ?N]\<rparr>)"
    by blast
  have "upload_file cfg env r s = except_block cfg r e
      (?s1\<lparr>blob_directory := (blob_directory ?s1)(path_join d ?N \<mapsto> stream f),
        metadata_store := metadata_store ?s1 @ [(inserted_id env, ?N)],
        effects := effects ?s1 @
            [File_write (path_join d ?N) (stream f), Metadata_insert (inserted_id env) ?N]\<rparr>)"
    unfolding upload_file_accepted [OF assms(1) assms(2) assms(3) assms(4)] st by simp
  then have "upload_file cfg env r s = except_block cfg r e
      (?s1\<lparr>blob_directory := (blob_directory s)(path_join d ?N \<mapsto> stream f),
        metadata_store := metadata_store s @ [(inserted_id env, ?N)],
        effects := effects s @
            [File_write (path_join d ?N) (stream f), Metadata_insert (inserted_id env) ?N]\<rparr>)"
    by (simp add: world_defs)
  then show ?thesis
    by (rule exI [of _ e])
qed

text \<open>
  With a session, every exception of the \<^verbatim>\<open>try\<close> block is handled as claim C7
  describes, and a late failure leaves the file and the metadata record in place.
\<close>

lemma exception_handled_with_session:
  assumes "request_method r = POST"
    and "session_available cfg"
    and "try_upload cfg env r (logger_info ''Accessed the upload file page.'' s) = (Inl e, s1)"
  shows "upload_file cfg env r s =
    (Redirect (url r),
     s1\<lparr>app_log := app_log s1 @ [Error_failed e],
        flashes := flashes s1 @ [Flash_error_occurred e]\<rparr>)"
  unfolding upload_file_raised [OF assms(1) assms(3)] using assms(2)
  by (rule except_block_with_session)

lemma late_failure_with_session:
  assumes "request_method r = POST"
    and "form_get r ''force_failure'' \<noteq> Some ''true''"
    and "files_get r ''file'' = Some f"
    and "allowed_file (filename f)"
    and "UPLOAD_FOLDER cfg = Some d"
    and "save_error env (path_join d (secure_filename (nfkd env) (filename f))) (stream f) = None"
    and "mongo_error env = None"
    and "pg_connect_error env \<noteq> None \<or> form_get r ''initial_stock_count'' = None
         \<or> (\<exists>v. form_get r ''initial_stock_count'' = Some v \<and>
               (py_int (int_max_str_digits env) v = None \<or>
                (\<exists>n. py_int (int_max_str_digits env) v = Some n \<and>
                   pg_insert_error env
                     \<lparr>name = form_get r ''product_name'',
                      image_mongodb_id = str_object_id (inserted_id env),
                      stock_count = n, review = ''Sample Review''\<rparr> \<noteq> None)))"
    and "session_available cfg"
    and "upload_file cfg env r s = (resp, s')"
  shows "resp = Redirect (url r) \<and>
     (\<exists>e. flashes s' = flashes s @ [Flash_error_occurred e] \<and>
          app_log s' = app_log s @ [Info ''Accessed the upload file page.'',
             Info ''Received a POST request to upload a file.'', Error_failed e]) \<and>
     blob_directory s' (path_join d (secure_filename (nfkd env) (filename f))) = Some (stream f) \<and>
     metadata_store s' = metadata_store s @
        [(inserted_id env, secure_filename (nfkd env) (filename f))] \<and>
     catalog_store s' = catalog_store s"
proof -
  from upload_file_late_failure [OF assms(1-8), of s]
  obtain e where "upload_file cfg env r s =
     except_block cfg r e
      ((logger_info ''Received a POST request to upload a file.''
          (logger_info ''Accessed the upload file page.'' s))
       \<lparr>blob_directory := (blob_directory s)
            (path_join d (secure_filename (nfkd env) (filename f)) \<mapsto> stream f),
        metadata_store := metadata_store s @
            [(inserted_id env, secure_filename (nfkd env) (filename f))],
        effects := effects s @
            [File_write (path_join d (secure_filename (nfkd env) (filename f))) (stream f),
             Metadata_insert (inserted_id env) (secure_filename (nfkd env) (filename f))]\<rparr>)"
    by blast
  with assms(10) show ?thesis
    unfolding except_block_with_session [OF assms(9)] by (auto simp: world_defs)
qed

text \<open>
  Without a session the late failure is logged, but nothing is flashed and the request
  ends with the exception of \<^verbatim>\<open>flash\<close>; the file and the metadata record remain.
\<close>

lemma late_failure_without_session:
  assumes "request_method r = POST"
    and "form_get r ''force_failure'' \<noteq> Some ''true''"
    and "files_get r ''file'' = Some f"
    and "allowed_file (filename f)"
    and "UPLOAD_FOLDER cfg = Some d"
    and "save_error env (path_join d (secure_filename (nfkd env) (filename f))) (stream f) = None"
    and "mongo_error env = None"
    and "pg_connect_error env \<noteq> None \<or> form_get r ''initial_stock_count'' = None
         \<or> (\<exists>v. form_get r ''initial_stock_count'' = Some v \<and>
               (py_int (int_max_str_digits env) v = None \<or>
                (\<exists>n. py_int (int_max_str_digits env) v = Some n \<and>
                   pg_insert_error env
                     \<lparr>name = form_get r ''product_name'',
                      image_mongodb_id = str_object_id (inserted_id env),
                      stock_count = n, review = ''Sample Review''\<rparr> \<noteq> None)))"
    and "\<not> session_available cfg"
    and "upload_file cfg env r s = (resp, s')"
  shows "resp = Internal_server_error Runtime_error_session \<and>
     flashes s' = flashes s \<and>
     (\<exists>e. app_log s' = app_log s @ [Info ''Accessed the upload file page.'',
             Info ''Received a POST request to upload a file.'', Error_failed e]) \<and>
     blob_directory s' (path_join d (secure_filename (nfkd env) (filename f))) = Some (stream f) \<and>
     metadata_store s' = metadata_store s @
        [(inserted_id env, secure_filename (nfkd env) (filename f))] \<and>
     catalog_store s' = catalog_store s"
proof -
  from upload_file_late_failure [OF assms(1-8), of s]
  obtain e where "upload_file cfg env r s =
     except_block cfg r e
      ((logger_info ''Received a POST request to upload a file.''
          (logger_info ''Accessed the upload file page.'' s))
       \<lparr>blob_directory := (blob_directory s)
            (path_join d (secure_filename (nfkd env) (filename f)) \<mapsto> stream f),
        metadata_store := metadata_store s @
            [(inserted_id env, secure_filename (nfkd env) (filename f))],
        effects := effects s @
            [File_write (path_join d (secure_filename (nfkd env) (filename f))) (stream f),
             Metadata_insert (inserted_id env) (secure_filename (nfkd env) (filename f))]\<rparr>)"
    by blast
  with assms(10) show ?thesis
    unfolding except_block_without_session [OF assms(9)] by (auto simp: world_defs)
qed

lemma late_failure_keyed_example:
  "upload_file keyed_config example_environment
      (example_post ''photo.png'' [(''product_name'', ''Widget''), (''initial_stock_count'', ''abc'')])
      empty_world
   = (Redirect ''http://localhost/upload-file'',
      \<lparr>blob_directory = [''uploads/photo.png'' \<mapsto> ''data''],
       metadata_store = [(ObjectId ''65f0c0ffee65f0c0ffee0001'', ''photo.png'')],
       catalog_store = [],
       app_log = [Info ''Accessed the upload file page.'',
          Info ''Received a POST request to upload a file.'',
          Error_failed (Value_error_int ''abc'')],
       flashes = [Flash_error_occurred (Value_error_int ''abc'')],
       effects = [File_write ''uploads/photo.png'' ''data'',
          Metadata_insert (ObjectId ''65f0c0ffee65f0c0ffee0001'') ''photo.png'']\<rparr>)"
  by (simp add: handler_defs example_defs keyed_config_def photo_png_allowed photo_png_secure
      py_int_examples)

text \<open>
  Claim C7, evaluated on the application as \<^verbatim>\<open>main.py\<close> configures it (no secret
  key) for an upload of \<^verbatim>\<open>photo.png\<close> with the stock count \<^verbatim>\<open>abc\<close>: the
  \<^verbatim>\<open>ValueError\<close> is caught and logged and nothing is rolled back (the file and the
  metadata record remain, no product row is added); but \<^verbatim>\<open>flash\<close> raises inside the
  \<^verbatim>\<open>except\<close> block, so no message is flashed, the client is not redirected and the
  request ends with that exception.
\<close>

theorem late_failure_answers_server_error:
  "upload_file example_config example_environment
      (example_post ''photo.png'' [(''product_name'', ''Widget''), (''initial_stock_count'', ''abc'')])
      empty_world
   = (Internal_server_error Runtime_error_session,
      \<lparr>blob_directory = [''uploads/photo.png'' \<mapsto> ''data''],
       metadata_store = [(ObjectId ''65f0c0ffee65f0c0ffee0001'', ''photo.png'')],
       catalog_store = [],
       app_log = [Info ''Accessed the upload file page.'',
          Info ''Received a POST request to upload a file.'',
          Error_failed (Value_error_int ''abc'')],
       flashes = [],
       effects = [File_write ''uploads/photo.png'' ''data'',
          Metadata_insert (ObjectId ''65f0c0ffee65f0c0ffee0001'') ''photo.png'']\<rparr>)"
  by (simp add: handler_defs example_defs photo_png_allowed photo_png_secure py_int_examples)

section \<open>The value of the field \<^verbatim>\<open>force_failure\<close>\<close>

lemma map_of_filter_other_key:
  assumes "k \<noteq> k'"
  shows "map_of (filter (\<lambda>kv. fst kv \<noteq> k') kvs) k = map_of kvs k"
  using assms by (induction kvs) auto

lemma map_of_filter_same_key:
  "map_of (filter (\<lambda>kv. fst kv \<noteq> k) kvs) k = None"
  by (induction kvs) auto

text \<open>The sequence of \<^verbatim>\<open>store_upload\<close> never raises the forced failure.\<close>

lemma store_upload_not_forced:
  assumes "store_upload cfg env r f s = (Inl e, s')"
  shows "e \<noteq> Forced_failure"
  using assms
  by (auto simp: store_upload_def action_defs Let_def split: option.splits)

lemma try_upload_forced:
  assumes "form_get r ''force_failure'' = Some ''true''"
  shows "try_upload cfg env r s =
    (Inl Forced_failure, logger_info ''Received a POST request to upload a file.'' s)"
  using assms by (simp add: try_upload_def Let_def)

lemma try_upload_not_forced:
  assumes "form_get r ''force_failure'' \<noteq> Some ''true''"
  shows "fst (try_upload cfg env r s) \<noteq> Inl Forced_failure"
proof (cases "files_get r ''file''")
  case None
  with assms show ?thesis
    by (simp add: try_upload_def Let_def flash_def)
next
  case (Some f)
  show ?thesis
  proof (cases "filename f \<noteq> [] \<and> allowed_file (filename f)")
    case False
    with assms Some show ?thesis
      by (auto simp: try_upload_def Let_def flash_def)
  next
    case True
    let ?s1 = "logger_info ''Received a POST request to upload a file.'' s"
    obtain res s2 where st: "store_upload cfg env r f ?s1 = (res, s2)"
      by (cases "store_upload cfg env r f ?s1")
    have "res \<noteq> Inl Forced_failure"
      using store_upload_not_forced [of cfg env r f ?s1 _ s2] st by auto
    with assms Some True st show ?thesis
      by (auto simp: try_upload_def Let_def split: sum.splits)
  qed
qed

text \<open>
  A request whose field \<^verbatim>\<open>force_failure\<close> is not \<^verbatim>\<open>true\<close> is answered as the
  same request without the field.
\<close>

lemma force_failure_as_if_unset:
  assumes "form_get r ''force_failure'' \<noteq> Some ''true''"
  shows "upload_file cfg env r s
     = upload_file cfg env (r\<lparr>form := filter (\<lambda>kv. fst kv \<noteq> ''force_failure'') (form r)\<rparr>) s"
proof -
  let ?r' = "r\<lparr>form := filter (\<lambda>kv. fst kv \<noteq> ''force_failure'') (form r)\<rparr>"
  have ff: "form_get ?r' ''force_failure'' \<noteq> Some ''true''"
    by (simp add: form_get_def map_of_filter_same_key)
  have other: "form_get ?r' ''initial_stock_count'' = form_get r ''initial_stock_count''"
    "form_get ?r' ''product_name'' = form_get r ''product_name''"
    by (simp_all add: form_get_def map_of_filter_other_key)
  have st: "store_upload cfg env ?r' f = store_upload cfg env r f" for f
    unfolding store_upload_def other ..
  have "try_upload cfg env ?r' t = try_upload cfg env r t" for t
    using assms ff unfolding try_upload_def st
    by (simp add: files_get_def Let_def split: option.splits prod.splits sum.splits)
  then show ?thesis
    unfolding upload_file_def
    by (simp add: Let_def except_block_def split: prod.splits sum.splits option.splits)
qed

text \<open>
  Claim C10. The forced failure is raised exactly when the field \<^verbatim>\<open>force_failure\<close>
  holds the string \<^verbatim>\<open>true\<close>. A POST request in which the field is absent or holds
  any other string goes through the checks and the upload: without a file part, or with
  an empty file name, the error is logged and flashed; a file with an allowed name is
  stored by the sequence of \<^verbatim>\<open>store_upload\<close>; any other file leaves the form to be
  rendered.
\<close>

theorem force_failure_only_exact_true:
  "(fst (try_upload cfg env r s) = Inl Forced_failure
      \<longleftrightarrow> form_get r ''force_failure'' = Some ''true'') \<and>
   (request_method r = POST \<and> form_get r ''force_failure'' \<noteq> Some ''true'' \<longrightarrow>
      upload_file cfg env r s =
        (case files_get r ''file'' of
           None \<Rightarrow>
             (case flash cfg (Flash ''No file part'')
                     (logger_error (Error ''Failed: No file part in the request.'')
                       (logger_info ''Received a POST request to upload a file.''
                         (logger_info ''Accessed the upload file page.'' s))) of
                (Inl e, s2) \<Rightarrow> except_block cfg r e s2
              | (Inr u, s2) \<Rightarrow> (Redirect (url r), s2))
         | Some f \<Rightarrow>
             if filename f = [] then
               (case flash cfg (Flash ''No selected file'')
                       (logger_error (Error ''Failed: No file selected for upload.'')
                         (logger_info ''Received a POST request to upload a file.''
                           (logger_info ''Accessed the upload file page.'' s))) of
                  (Inl e, s2) \<Rightarrow> except_block cfg r e s2
                | (Inr u, s2) \<Rightarrow> (Redirect (url r), s2))
             else if allowed_file (filename f) then
               (case store_upload cfg env r f
                       (logger_info ''Received a POST request to upload a file.''
                         (logger_info ''Accessed the upload file page.'' s)) of
                  (Inl e, s2) \<Rightarrow> except_block cfg r e s2
                | (Inr resp, s2) \<Rightarrow> (resp, s2))
             else
               (Render_template ''upload_image.html'',
                logger_info ''Received a POST request to upload a file.''
                  (logger_info ''Accessed the upload file page.'' s))))"
  (is "?A \<and> (?H \<longrightarrow> ?B)")
proof (intro conjI impI)
  show ?A
    using try_upload_forced [of r cfg env s] try_upload_not_forced [of r cfg env s]
    by (cases "form_get r ''force_failure'' = Some ''true''") simp_all
next
  assume ?H
  then show ?B
    by (simp add: upload_file_def try_upload_def Let_def
        split: option.splits prod.splits sum.splits)
qed

theorem force_failure_only_exact_true_witness:
  "upload_file example_config example_environment
      (example_post ''photo.png''
         [(''force_failure'', ''True''), (''product_name'', ''Widget''), (''initial_stock_count'', ''5'')])
      empty_world
   = (Json_upload ''photo.png'' ''/uploads/photo.png'',
      \<lparr>blob_directory = [''uploads/photo.png'' \<mapsto> ''data''],
       metadata_store = [(ObjectId ''65f0c0ffee65f0c0ffee0001'', ''photo.png'')],
       catalog_store = [\<lparr>name = Some ''Widget'', image_mongodb_id = ''65f0c0ffee65f0c0ffee0001'',
          stock_count = 5, review = ''Sample Review''\<rparr>],
       app_log = [Info ''Accessed the upload file page.'',
          Info ''Received a POST request to upload a file.'',
          Info ''Success: File upload completed successfully.''],
       flashes = [],
       effects = [File_write ''uploads/photo.png'' ''data'',
          Metadata_insert (ObjectId ''65f0c0ffee65f0c0ffee0001'') ''photo.png'',
          Product_insert \<lparr>name = Some ''Widget'', image_mongodb_id = ''65f0c0ffee65f0c0ffee0001'',
            stock_count = 5, review = ''Sample Review''\<rparr>]\<rparr>) \<and>
   fst (try_upload example_config example_environment
      (example_post ''photo.png''
         [(''force_failure'', ''True''), (''product_name'', ''Widget''), (''initial_stock_count'', ''5'')])
      empty_world) \<noteq> Inl Forced_failure \<and>
   fst (upload_file example_config example_environment
      (example_post ''photo.png''
         [(''force_failure'', ''1''), (''product_name'', ''Widget''), (''initial_stock_count'', ''5'')])
      empty_world) = Json_upload ''photo.png'' ''/uploads/photo.png'' \<and>
   fst (upload_file example_config example_environment
      (example_post ''photo.png''
         [(''force_failure'', ''yes''), (''product_name'', ''Widget''), (''initial_stock_count'', ''5'')])
      empty_world) = Json_upload ''photo.png'' ''/uploads/photo.png''"
  using force_failure_only_exact_true [of example_config example_environment
      "example_post ''photo.png''
         [(''force_failure'', ''True''), (''product_name'', ''Widget''), (''initial_stock_count'', ''5'')]"
      empty_world]
  by (simp add: handler_defs example_defs photo_png_allowed photo_png_secure py_int_examples
      photo_png_url)

section \<open>Properties of the log file\<close>

lemma watch_logs_any_content:
  "\<exists>ls. watch_logs log_file = Some ls \<and> concat ls = universal_newlines log_file \<and>
     (\<forall>l\<in>set ls. l \<noteq> [] \<and> LF \<notin> set (butlast l)) \<and>
     (\<forall>l\<in>set (butlast ls). last l = LF)"
  unfolding watch_logs_def by (rule generate_single_pass)

text \<open>
  Reading in text mode commutes with appending a line that does not begin with a line
  feed, as the line of a record never does.
\<close>

lemma universal_newlines_append:
  assumes "ys = [] \<or> hd ys \<noteq> LF"
  shows "universal_newlines (xs @ ys) = universal_newlines xs @ universal_newlines ys"
  using assms
proof (induction xs rule: universal_newlines.induct)
  case 1
  then show ?case by simp
next
  case (2 c cs)
  show ?case
  proof (cases cs)
    case Nil
    with 2 show ?thesis
      by (cases ys) (auto simp: CR_def LF_def)
  next
    case (Cons d ds)
    with 2 show ?thesis
      by auto
  qed
qed

lemma format_record_first:
  "format_record cfg env rec \<noteq> [] \<and> hd (format_record cfg env rec) \<noteq> LF"
  by (cases rec) (simp_all add: format_record_def LF_def)

text \<open>The handler keeps the line that it writes: it is the end of the file.\<close>

lemma emit_ends_with_line:
  "\<exists>pre. emit line log_file = pre @ line \<and> (pre = log_file \<or> pre = [])"
  by (simp add: emit_def)

lemma emit_rollover:
  assumes "maxBytes \<le> length log_file + length line"
  shows "emit line log_file = line"
  using assms by (simp add: emit_def)

lemma emit_append:
  assumes "length log_file + length line < maxBytes"
  shows "emit line log_file = log_file @ line"
  using assms by (simp add: emit_def)

lemma log_file_after_snoc:
  "log_file_after cfg env c (recs @ [rec])
     = emit (format_record cfg env rec) (log_file_after cfg env c recs)"
  by (simp add: log_file_after_def)

lemma log_file_after_Cons:
  "log_file_after cfg env c (rec # recs)
     = log_file_after cfg env (emit (format_record cfg env rec) c) recs"
  by (simp add: log_file_after_def)

lemma length_concat_replicate: "length (concat (replicate n xs)) = n * length xs"
  by (induction n) simp_all

lemma log_file_after_replicate:
  assumes "length c + n * length (format_record cfg env rec) < maxBytes"
  shows "log_file_after cfg env c (replicate n rec)
     = c @ concat (replicate n (format_record cfg env rec))"
  using assms
proof (induction n arbitrary: c)
  case 0
  then show ?case by (simp add: log_file_after_def)
next
  case (Suc n)
  let ?line = "format_record cfg env rec"
  from Suc.prems have small: "length c + length ?line < maxBytes"
    by simp
  from Suc.prems have "length (c @ ?line) + n * length ?line < maxBytes"
    by simp
  then have "log_file_after cfg env (c @ ?line) (replicate n rec)
      = (c @ ?line) @ concat (replicate n ?line)"
    by (rule Suc.IH)
  then show ?case
    by (simp add: log_file_after_Cons emit_append [OF small])
qed

lemma hello_world_repeated:
  "app_log (((\<lambda>s. snd (hello_world s)) ^^ n) s)
     = app_log s @ replicate n (Info ''Accessed the home page.'')"
  by (induction n) (simp_all add: hello_world_def logger_info_def replicate_append_same)

lemma example_lines:
  "format_record example_config example_environment (Info ''Accessed the upload file page.'')
     = ''INFO:main:Accessed the upload file page.\<newline>''"
  "format_record example_config example_environment (Info ''Accessed the home page.'')
     = ''INFO:main:Accessed the home page.\<newline>''"
  by (simp_all add: format_record_def example_config_def LF_def)

text \<open>
  Claim C8 as stated fails. The upload form is requested once, which logs a line, and
  then the home page 293 times; the last of these writes would bring \<^verbatim>\<open>app.log\<close> to
  10003 characters, so the handler moves the file to \<^verbatim>\<open>app.log.1\<close> first. The
  stream of \<^verbatim>\<open>/logs\<close> is then the one line of the last request: the line that was
  written first is not in it.
\<close>

theorem rotated_line_not_streamed_counterexample:
  "log_file_after example_config example_environment []
      (app_log (snd (upload_file example_config example_environment example_get empty_world)))
     = ''INFO:main:Accessed the upload file page.\<newline>'' \<and>
   watch_logs (log_file_after example_config example_environment []
      (app_log (((\<lambda>s. snd (hello_world s)) ^^ 293)
         (snd (upload_file example_config example_environment example_get empty_world)))))
     = Some [''INFO:main:Accessed the home page.\<newline>'']"
proof -
  let ?s1 = "snd (upload_file example_config example_environment example_get empty_world)"
  let ?u = "Info ''Accessed the upload file page.''"
  let ?h = "Info ''Accessed the home page.''"
  let ?lu = "''INFO:main:Accessed the upload file page.\<newline>''"
  let ?lh = "''INFO:main:Accessed the home page.\<newline>''"
  have log1: "app_log ?s1 = [?u]"
    by (simp add: upload_file_def Let_def logger_info_def example_get_def empty_world_def)
  have first: "log_file_after example_config example_environment [] [?u] = ?lu"
    by (simp add: log_file_after_def emit_def maxBytes_def example_lines)
  have "(293::nat) = Suc 292"
    by simp
  then have "replicate 293 ?h = replicate 292 ?h @ [?h]"
    by (simp only: replicate_Suc replicate_append_same)
  then have log2: "app_log (((\<lambda>s. snd (hello_world s)) ^^ 293) ?s1)
      = (?u # replicate 292 ?h) @ [?h]"
    unfolding hello_world_repeated log1 by simp
  have "length ?lu + 292 * length (format_record example_config example_environment ?h) < maxBytes"
    by (simp add: example_lines maxBytes_def)
  then have "log_file_after example_config example_environment ?lu (replicate 292 ?h)
      = ?lu @ concat (replicate 292 (format_record example_config example_environment ?h))"
    by (rule log_file_after_replicate)
  then have "log_file_after example_config example_environment ?lu (replicate 292 ?h)
      = ?lu @ concat (replicate 292 ?lh)"
    unfolding example_lines .
  then have before: "log_file_after example_config example_environment [] (?u # replicate 292 ?h)
      = ?lu @ concat (replicate 292 ?lh)"
    unfolding log_file_after_Cons example_lines by (simp add: emit_def maxBytes_def)
  have "maxBytes \<le> length (?lu @ concat (replicate 292 ?lh)) + length ?lh"
    by (simp add: length_concat_replicate maxBytes_def)
  then have "emit ?lh (?lu @ concat (replicate 292 ?lh)) = ?lh"
    by (rule emit_rollover)
  then have last_file: "log_file_after example_config example_environment []
      ((?u # replicate 292 ?h) @ [?h]) = ?lh"
    unfolding log_file_after_snoc before example_lines .
  have "watch_logs ?lh = Some [?lh]"
    by (simp add: watch_logs_def generate.simps readline_def LF_def CR_def)
  then show ?thesis
    unfolding log1 log2 last_file first by simp
qed

text \<open>
  Claim C8, amended. For every content of \<^verbatim>\<open>app.log\<close> the stream of
  \<^verbatim>\<open>watch_logs\<close> is finite: it ends after one pass. What it yields, put together, is
  all of the text that is in the file, in order; every item is one non-empty line (a line
  feed occurs at its end only), and every item but the last ends with a line feed. After
  a record has been logged, the stream ends with the line of that record; the lines that
  the handler has moved to \<^verbatim>\<open>app.log.1\<close> are not part of it.
\<close>

theorem watch_logs_current_file:
  "(\<exists>ls. watch_logs log_file = Some ls \<and> concat ls = universal_newlines log_file \<and>
      (\<forall>l\<in>set ls. l \<noteq> [] \<and> LF \<notin> set (butlast l)) \<and>
      (\<forall>l\<in>set (butlast ls). last l = LF)) \<and>
   (\<exists>ls pre. watch_logs (emit (format_record cfg env rec) log_file) = Some ls \<and>
      concat ls = universal_newlines pre @ universal_newlines (format_record cfg env rec) \<and>
      (pre = log_file \<or> pre = []))"
proof
  show "\<exists>ls. watch_logs log_file = Some ls \<and> concat ls = universal_newlines log_file \<and>
      (\<forall>l\<in>set ls. l \<noteq> [] \<and> LF \<notin> set (butlast l)) \<and>
      (\<forall>l\<in>set (butlast ls). last l = LF)"
    by (rule watch_logs_any_content)
next
  let ?line = "format_record cfg env rec"
  obtain pre where pre: "emit ?line log_file = pre @ ?line" "pre = log_file \<or> pre = []"
    using emit_ends_with_line by blast
  obtain ls where ls: "watch_logs (emit ?line log_file) = Some ls"
      "concat ls = universal_newlines (emit ?line log_file)"
    using watch_logs_any_content by blast
  have "universal_newlines (pre @ ?line) = universal_newlines pre @ universal_newlines ?line"
    using format_record_first [of cfg env rec] by (intro universal_newlines_append) simp
  with pre ls show "\<exists>ls pre. watch_logs (emit ?line log_file) = Some ls \<and>
      concat ls = universal_newlines pre @ universal_newlines ?line \<and>
      (pre = log_file \<or> pre = [])"
    by auto
qed

theorem watch_logs_current_file_witness:
  "watch_logs (emit (format_record example_config example_environment
        (Error ''Failed: No file part in the request.''))
      ''INFO:main:Accessed the upload file page.\<newline>'')
     = Some [''INFO:main:Accessed the upload file page.\<newline>'',
             ''ERROR:main:Failed: No file part in the request.\<newline>'']"
  using watch_logs_current_file [of "''INFO:main:Accessed the upload file page.\<newline>''"
      example_config example_environment "Error ''Failed: No file part in the request.''"]
  by (simp add: watch_logs_def generate.simps readline_def LF_def CR_def emit_def maxBytes_def
      format_record_def example_config_def)

end
